theory Spec2Isabelle
  imports Complex_Main
begin

section \<open>Data model (db/tables.ts)\<close>

text \<open>
  The four tables of the flashcard service. A \<open>column.text({ optional: true })\<close> is a
  nullable column and becomes an \<open>option\<close> (\<open>None\<close> is SQL NULL); a column with a
  default is never NULL. Dates are milliseconds since the epoch; identifiers are the
  integers of \<open>z.number().int()\<close>.
\<close>

type_synonym timestamp = int
type_synonym json = "(string \<times> string) list"

datatype level = A1 | A2 | B1 | B2 | C1 | C2 | mixed

datatype rating = again | hard | good | easy

record deck =
  d_id :: int
  d_ownerId :: string
  d_title :: string
  d_description :: "string option"
  d_fromLanguage :: string
  d_toLanguage :: string
  d_level :: level
  d_tags :: "string option"
  d_isActive :: bool
  d_createdAt :: timestamp
  d_updatedAt :: timestamp

record card =
  c_id :: int
  c_deckId :: int
  c_displayOrder :: int
  c_term :: string
  c_translation :: string
  c_transliteration :: "string option"
  c_partOfSpeech :: "string option"
  c_gender :: "string option"
  c_exampleSentence :: "string option"
  c_exampleTranslation :: "string option"
  c_phonetic :: "string option"
  c_audioUrl :: "string option"
  c_tags :: "string option"
  c_isActive :: bool

record study_session =
  s_id :: int
  s_deckId :: int
  s_userId :: "string option"
  s_startedAt :: timestamp
  s_completedAt :: "timestamp option"
  s_totalCardsSeen :: int
  s_correctCount :: int
  s_wrongCount :: int
  s_summary :: "json option"
  s_createdAt :: timestamp

record review =
  r_id :: int
  r_deckId :: int
  r_cardId :: int
  r_userId :: "string option"
  r_sessionId :: "int option"
  r_rating :: rating
  r_reviewedAt :: timestamp
  r_dueAt :: "timestamp option"
  r_intervalDays :: int
  r_easeFactor :: "real option"

text \<open>The store: one list of rows per table, in insertion order.\<close>

record database =
  decks :: "deck list"
  cards :: "card list"
  sessions :: "study_session list"
  reviews :: "review list"

section \<open>Errors and the request context\<close>

text \<open>
  A handler throws \<open>ActionError { code, message }\<close>; the input schema of an action
  rejects a request before the handler runs, with the issues it found. An exception of
  the store is caught by no handler, and the caller gets INTERNAL_SERVER_ERROR.
\<close>

datatype code = UNAUTHORIZED | NOT_FOUND | FORBIDDEN

datatype issue = too_small string | custom string

datatype store_exception = FOREIGN_KEY_CONSTRAINT

datatype error =
    ActionError code string
  | InputError "issue list"
  | InternalServerError store_exception

record user =
  u_id :: string

record locals =
  l_user :: "user option"

record action_context =
  ctx_locals :: "locals option"

section \<open>The store's query builder (astro:db)\<close>

text \<open>
  The query builder is imported, not part of the repository; these are the operations
  the handlers use. \<open>select().from(T).where(P)\<close> is \<open>filter P\<close> on the table's rows, and
  the destructuring \<open>const [row] = ...\<close> takes the first row, \<open>undefined\<close> when there
  is none.
\<close>

definition first :: "'a list \<Rightarrow> 'a option" where
  "first rows = (case rows of [] \<Rightarrow> None | r # _ \<Rightarrow> Some r)"

text \<open>An auto-increment primary key: one more than the largest key in the table, from 1.\<close>

definition next_id :: "int list \<Rightarrow> int" where
  "next_id ids = foldr max ids 0 + 1"

text \<open>
  \<open>update(T).set(v).where(P).returning()\<close>: every row that satisfies \<open>P\<close> is rewritten by
  \<open>v\<close>, and the rewritten rows are returned.
\<close>

definition update_where :: "('a \<Rightarrow> bool) \<Rightarrow> ('a \<Rightarrow> 'a) \<Rightarrow> 'a list \<Rightarrow> 'a list" where
  "update_where P f rows = map (\<lambda>r. if P r then f r else r) rows"

definition returning :: "('a \<Rightarrow> bool) \<Rightarrow> ('a \<Rightarrow> 'a) \<Rightarrow> 'a list \<Rightarrow> 'a list" where
  "returning P f rows = map f (filter P rows)"

text \<open>
  What the store does with a key of the \<open>set\<close> object whose value is \<open>undefined\<close> is
  decided by the query builder, which the repository imports and does not define: it is
  a parameter of the model.
  \<open>WritesNull\<close> stores NULL in the column, \<open>LeavesColumn\<close> leaves the column as it was.
  The query builder of astro:db drops a key whose value is \<open>undefined\<close> from the
  update, so the store the service runs on is \<open>LeavesColumn\<close>.
\<close>

datatype undefined_assignment = WritesNull | LeavesColumn

definition assign_nullable :: "undefined_assignment \<Rightarrow> 'a option \<Rightarrow> 'a option \<Rightarrow> 'a option" where
  "assign_nullable undef v old =
     (case v of
        Some x \<Rightarrow> Some x
      | None \<Rightarrow> (case undef of WritesNull \<Rightarrow> None | LeavesColumn \<Rightarrow> old))"

text \<open>
  A column declared with \<open>references\<close> is a foreign key, and the store refuses a row
  whose key is in no row of the referenced table; a NULL key refers to nothing and is
  accepted. A review row has three: deckId, cardId and the optional sessionId. (The
  deckId of a card and of a session is also one; the handlers write there only the id
  of the deck that getDeckForUser has just returned.)
\<close>

definition review_references :: "database \<Rightarrow> review \<Rightarrow> bool" where
  "review_references db r \<longleftrightarrow>
     r_deckId r \<in> set (map d_id (decks db)) \<and>
     r_cardId r \<in> set (map c_id (cards db)) \<and>
     (case r_sessionId r of None \<Rightarrow> True | Some k \<Rightarrow> k \<in> set (map s_id (sessions db)))"

text \<open>The nullish coalescing \<open>a ?? b\<close>, and the truthiness of an optional number.\<close>

definition nullish :: "'a option \<Rightarrow> 'a \<Rightarrow> 'a" where
  "nullish a b = (case a of None \<Rightarrow> b | Some x \<Rightarrow> x)"

definition truthy :: "int option \<Rightarrow> bool" where
  "truthy n = (case n of None \<Rightarrow> False | Some i \<Rightarrow> i \<noteq> 0)"

section \<open>Authorization guard and ownership resolver (actions/index.ts)\<close>

definition requireUser :: "action_context \<Rightarrow> error + user" where
  "requireUser ctx =
     (case ctx_locals ctx of
        None \<Rightarrow> Inl (ActionError UNAUTHORIZED ''You must be signed in to perform this action.'')
      | Some l \<Rightarrow>
          (case l_user l of
             None \<Rightarrow> Inl (ActionError UNAUTHORIZED ''You must be signed in to perform this action.'')
           | Some u \<Rightarrow> Inr u))"

definition getDeckForUser :: "int \<Rightarrow> string \<Rightarrow> database \<Rightarrow> error + deck" where
  "getDeckForUser deckId userId db =
     (case first (filter (\<lambda>d. d_id d = deckId) (decks db)) of
        None \<Rightarrow> Inl (ActionError NOT_FOUND ''Deck not found.'')
      | Some d \<Rightarrow>
          if d_ownerId d \<noteq> userId
          then Inl (ActionError FORBIDDEN ''You do not have access to this deck.'')
          else Inr d)"

section \<open>Action inputs\<close>

text \<open>
  The typed inputs of the actions: \<open>.optional()\<close> is an \<open>option\<close>. A field with a schema
  default has the type parameter: \<open>option\<close> in the request, the plain type once the
  schema has filled the default in.
\<close>

record create_deck_input =
  cd_title :: string
  cd_description :: "string option"
  cd_fromLanguage :: "string option"
  cd_toLanguage :: "string option"
  cd_level :: "level option"
  cd_tags :: "string option"
  cd_isActive :: "bool option"

record update_deck_input =
  ud_id :: int
  ud_title :: "string option"
  ud_description :: "string option"
  ud_fromLanguage :: "string option"
  ud_toLanguage :: "string option"
  ud_level :: "level option"
  ud_tags :: "string option"
  ud_isActive :: "bool option"

record 'b list_decks_input =
  ld_includeInactive :: 'b

record upsert_card_input =
  uc_id :: "int option"
  uc_deckId :: int
  uc_displayOrder :: "int option"
  uc_term :: string
  uc_translation :: string
  uc_transliteration :: "string option"
  uc_partOfSpeech :: "string option"
  uc_gender :: "string option"
  uc_exampleSentence :: "string option"
  uc_exampleTranslation :: "string option"
  uc_phonetic :: "string option"
  uc_audioUrl :: "string option"
  uc_tags :: "string option"
  uc_isActive :: "bool option"

record 'b list_cards_input =
  lc_deckId :: int
  lc_includeInactive :: 'b

record start_session_input =
  ss_deckId :: int

record complete_session_input =
  cs_id :: int
  cs_totalCardsSeen :: "int option"
  cs_correctCount :: "int option"
  cs_wrongCount :: "int option"
  cs_summary :: "json option"
  cs_completedAt :: "timestamp option"

record 'r log_review_input =
  lr_deckId :: int
  lr_cardId :: int
  lr_sessionId :: "int option"
  lr_rating :: 'r
  lr_reviewedAt :: "timestamp option"
  lr_dueAt :: "timestamp option"
  lr_intervalDays :: "int option"
  lr_easeFactor :: "real option"

record 'a listing =
  items :: "'a list"
  total :: nat

text \<open>
  \<open>defineAction({ input, handler })\<close>: the request is parsed by the input schema, and the
  handler runs on the parsed input only when the schema accepts. A handler takes the
  context, the clock reading its \<open>new Date()\<close> returns, and the store; it returns its
  result or the error it threw, and the store as it left it.
\<close>

type_synonym ('p, 'r) handler =
  "'p \<Rightarrow> action_context \<Rightarrow> timestamp \<Rightarrow> database \<Rightarrow> (error + 'r) \<times> database"

definition defineAction :: "('i \<Rightarrow> issue list + 'p) \<Rightarrow> ('p, 'r) handler \<Rightarrow> ('i, 'r) handler" where
  "defineAction input handler request ctx now db =
     (case input request of
        Inl i \<Rightarrow> (Inl (InputError i), db)
      | Inr p \<Rightarrow> handler p ctx now db)"

section \<open>Deck actions\<close>

definition createDeck_input :: "create_deck_input \<Rightarrow> issue list + create_deck_input" where
  "createDeck_input inp =
     (if length (cd_title inp) < 1 then Inl [too_small ''title''] else Inr inp)"

definition createDeck_handler :: "(create_deck_input, deck) handler" where
  "createDeck_handler inp ctx now db =
     (case requireUser ctx of
        Inl e \<Rightarrow> (Inl e, db)
      | Inr u \<Rightarrow>
          (let deck = \<lparr> d_id = next_id (map d_id (decks db)),
                        d_ownerId = u_id u,
                        d_title = cd_title inp,
                        d_description = cd_description inp,
                        d_fromLanguage = nullish (cd_fromLanguage inp) ''en'',
                        d_toLanguage = nullish (cd_toLanguage inp) ''en'',
                        d_level = nullish (cd_level inp) mixed,
                        d_tags = cd_tags inp,
                        d_isActive = nullish (cd_isActive inp) True,
                        d_createdAt = now,
                        d_updatedAt = now \<rparr>
           in (Inr deck, db\<lparr>decks := decks db @ [deck]\<rparr>)))"

definition createDeck :: "(create_deck_input, deck) handler" where
  "createDeck = defineAction createDeck_input createDeck_handler"

text \<open>The refinement of the update schema: some mutable field is present.\<close>

definition updateDeck_refine :: "update_deck_input \<Rightarrow> bool" where
  "updateDeck_refine inp \<longleftrightarrow>
     ud_title inp \<noteq> None \<or> ud_description inp \<noteq> None \<or> ud_fromLanguage inp \<noteq> None \<or>
     ud_toLanguage inp \<noteq> None \<or> ud_level inp \<noteq> None \<or> ud_tags inp \<noteq> None \<or>
     ud_isActive inp \<noteq> None"

definition updateDeck_input :: "update_deck_input \<Rightarrow> issue list + update_deck_input" where
  "updateDeck_input inp =
     (case ud_title inp of
        Some t \<Rightarrow> if length t < 1 then Inl [too_small ''title''] else Inr inp
      | None \<Rightarrow>
          if updateDeck_refine inp then Inr inp
          else Inl [custom ''At least one field must be provided to update.''])"

text \<open>
  The \<open>set\<close> object of updateDeck spreads in a key only when the request has the field,
  so a column without a key keeps its value.
\<close>

definition updateDeck_set :: "update_deck_input \<Rightarrow> timestamp \<Rightarrow> deck \<Rightarrow> deck" where
  "updateDeck_set inp now d =
     d\<lparr> d_title := nullish (ud_title inp) (d_title d),
        d_description := (case ud_description inp of None \<Rightarrow> d_description d | Some v \<Rightarrow> Some v),
        d_fromLanguage := nullish (ud_fromLanguage inp) (d_fromLanguage d),
        d_toLanguage := nullish (ud_toLanguage inp) (d_toLanguage d),
        d_level := nullish (ud_level inp) (d_level d),
        d_tags := (case ud_tags inp of None \<Rightarrow> d_tags d | Some v \<Rightarrow> Some v),
        d_isActive := nullish (ud_isActive inp) (d_isActive d),
        d_updatedAt := now \<rparr>"

definition updateDeck_handler :: "(update_deck_input, deck option) handler" where
  "updateDeck_handler inp ctx now db =
     (case requireUser ctx of
        Inl e \<Rightarrow> (Inl e, db)
      | Inr u \<Rightarrow>
          (case getDeckForUser (ud_id inp) (u_id u) db of
             Inl e \<Rightarrow> (Inl e, db)
           | Inr _ \<Rightarrow>
               (Inr (first (returning (\<lambda>d. d_id d = ud_id inp) (updateDeck_set inp now) (decks db))),
                db\<lparr>decks := update_where (\<lambda>d. d_id d = ud_id inp) (updateDeck_set inp now) (decks db)\<rparr>)))"

definition updateDeck :: "(update_deck_input, deck option) handler" where
  "updateDeck = defineAction updateDeck_input updateDeck_handler"

definition listDecks_input :: "bool option list_decks_input option \<Rightarrow> issue list + bool list_decks_input option" where
  "listDecks_input request =
     Inr (map_option (\<lambda>r. \<lparr> ld_includeInactive = nullish (ld_includeInactive r) False \<rparr>) request)"

definition listDecks_handler :: "(bool list_decks_input option, deck listing) handler" where
  "listDecks_handler inp ctx now db =
     (case requireUser ctx of
        Inl e \<Rightarrow> (Inl e, db)
      | Inr u \<Rightarrow>
          (let includeInactive = nullish (map_option ld_includeInactive inp) False;
               rows = filter (if includeInactive
                                then (\<lambda>d. d_ownerId d = u_id u)
                                else (\<lambda>d. d_ownerId d = u_id u \<and> d_isActive d = True))
                             (decks db)
           in (Inr \<lparr> items = rows, total = length rows \<rparr>, db)))"

definition listDecks :: "(bool option list_decks_input option, deck listing) handler" where
  "listDecks = defineAction listDecks_input listDecks_handler"

section \<open>Card actions\<close>

definition upsertCard_input :: "upsert_card_input \<Rightarrow> issue list + upsert_card_input" where
  "upsertCard_input inp =
     (let issues = (if length (uc_term inp) < 1 then [too_small ''term''] else []) @
                   (if length (uc_translation inp) < 1 then [too_small ''translation''] else [])
      in if issues = [] then Inr inp else Inl issues)"

text \<open>
  The \<open>set\<close> object of the update branch of upsertCard has every key. \<open>displayOrder\<close> and
  \<open>isActive\<close> fall back to the selected card; the optional descriptive fields carry the
  request's value, which is \<open>undefined\<close> when the request omits the field.
\<close>

definition upsertCard_set :: "undefined_assignment \<Rightarrow> upsert_card_input \<Rightarrow> card \<Rightarrow> card \<Rightarrow> card" where
  "upsertCard_set undef inp card_row r =
     r\<lparr> c_deckId := uc_deckId inp,
        c_displayOrder := nullish (uc_displayOrder inp) (c_displayOrder card_row),
        c_term := uc_term inp,
        c_translation := uc_translation inp,
        c_transliteration := assign_nullable undef (uc_transliteration inp) (c_transliteration r),
        c_partOfSpeech := assign_nullable undef (uc_partOfSpeech inp) (c_partOfSpeech r),
        c_gender := assign_nullable undef (uc_gender inp) (c_gender r),
        c_exampleSentence := assign_nullable undef (uc_exampleSentence inp) (c_exampleSentence r),
        c_exampleTranslation := assign_nullable undef (uc_exampleTranslation inp) (c_exampleTranslation r),
        c_phonetic := assign_nullable undef (uc_phonetic inp) (c_phonetic r),
        c_audioUrl := assign_nullable undef (uc_audioUrl inp) (c_audioUrl r),
        c_tags := assign_nullable undef (uc_tags inp) (c_tags r),
        c_isActive := nullish (uc_isActive inp) (c_isActive card_row) \<rparr>"

definition upsertCard_handler :: "undefined_assignment \<Rightarrow> (upsert_card_input, card option) handler" where
  "upsertCard_handler undef inp ctx now db =
     (case requireUser ctx of
        Inl e \<Rightarrow> (Inl e, db)
      | Inr u \<Rightarrow>
          (case getDeckForUser (uc_deckId inp) (u_id u) db of
             Inl e \<Rightarrow> (Inl e, db)
           | Inr _ \<Rightarrow>
               if truthy (uc_id inp) then
                 (case first (filter (\<lambda>c. Some (c_id c) = uc_id inp \<and> c_deckId c = uc_deckId inp) (cards db)) of
                    None \<Rightarrow> (Inl (ActionError NOT_FOUND ''Card not found.''), db)
                  | Some card_row \<Rightarrow>
                      (Inr (first (returning (\<lambda>c. Some (c_id c) = uc_id inp) (upsertCard_set undef inp card_row) (cards db))),
                       db\<lparr>cards := update_where (\<lambda>c. Some (c_id c) = uc_id inp) (upsertCard_set undef inp card_row) (cards db)\<rparr>))
               else
                 (let card_row = \<lparr> c_id = next_id (map c_id (cards db)),
                                   c_deckId = uc_deckId inp,
                                   c_displayOrder = nullish (uc_displayOrder inp) 0,
                                   c_term = uc_term inp,
                                   c_translation = uc_translation inp,
                                   c_transliteration = uc_transliteration inp,
                                   c_partOfSpeech = uc_partOfSpeech inp,
                                   c_gender = uc_gender inp,
                                   c_exampleSentence = uc_exampleSentence inp,
                                   c_exampleTranslation = uc_exampleTranslation inp,
                                   c_phonetic = uc_phonetic inp,
                                   c_audioUrl = uc_audioUrl inp,
                                   c_tags = uc_tags inp,
                                   c_isActive = nullish (uc_isActive inp) True \<rparr>
                  in (Inr (Some card_row), db\<lparr>cards := cards db @ [card_row]\<rparr>))))"

definition upsertCard :: "undefined_assignment \<Rightarrow> (upsert_card_input, card option) handler" where
  "upsertCard undef = defineAction upsertCard_input (upsertCard_handler undef)"

definition listCards_input :: "bool option list_cards_input \<Rightarrow> issue list + bool list_cards_input" where
  "listCards_input request =
     Inr \<lparr> lc_deckId = lc_deckId request,
           lc_includeInactive = nullish (lc_includeInactive request) False \<rparr>"

definition listCards_handler :: "(bool list_cards_input, card listing) handler" where
  "listCards_handler inp ctx now db =
     (case requireUser ctx of
        Inl e \<Rightarrow> (Inl e, db)
      | Inr u \<Rightarrow>
          (case getDeckForUser (lc_deckId inp) (u_id u) db of
             Inl e \<Rightarrow> (Inl e, db)
           | Inr _ \<Rightarrow>
               (let rows = filter (if lc_includeInactive inp
                                     then (\<lambda>c. c_deckId c = lc_deckId inp)
                                     else (\<lambda>c. c_deckId c = lc_deckId inp \<and> c_isActive c = True))
                                  (cards db)
                in (Inr \<lparr> items = rows, total = length rows \<rparr>, db))))"

definition listCards :: "(bool option list_cards_input, card listing) handler" where
  "listCards = defineAction listCards_input listCards_handler"

section \<open>Study session actions\<close>

definition startStudySession_handler :: "(start_session_input, study_session) handler" where
  "startStudySession_handler inp ctx now db =
     (case requireUser ctx of
        Inl e \<Rightarrow> (Inl e, db)
      | Inr u \<Rightarrow>
          (case getDeckForUser (ss_deckId inp) (u_id u) db of
             Inl e \<Rightarrow> (Inl e, db)
           | Inr _ \<Rightarrow>
               (let session = \<lparr> s_id = next_id (map s_id (sessions db)),
                                s_deckId = ss_deckId inp,
                                s_userId = Some (u_id u),
                                s_startedAt = now,
                                s_completedAt = None,
                                s_totalCardsSeen = 0,
                                s_correctCount = 0,
                                s_wrongCount = 0,
                                s_summary = None,
                                s_createdAt = now \<rparr>
                in (Inr session, db\<lparr>sessions := sessions db @ [session]\<rparr>))))"

definition startStudySession :: "(start_session_input, study_session) handler" where
  "startStudySession = defineAction Inr startStudySession_handler"

definition completeStudySession_set ::
  "complete_session_input \<Rightarrow> timestamp \<Rightarrow> study_session \<Rightarrow> study_session \<Rightarrow> study_session" where
  "completeStudySession_set inp now session r =
     r\<lparr> s_totalCardsSeen := nullish (cs_totalCardsSeen inp) (s_totalCardsSeen session),
        s_correctCount := nullish (cs_correctCount inp) (s_correctCount session),
        s_wrongCount := nullish (cs_wrongCount inp) (s_wrongCount session),
        s_summary := (case cs_summary inp of None \<Rightarrow> s_summary session | Some v \<Rightarrow> Some v),
        s_completedAt := Some (nullish (cs_completedAt inp) now) \<rparr>"

definition completeStudySession_handler :: "(complete_session_input, study_session option) handler" where
  "completeStudySession_handler inp ctx now db =
     (case requireUser ctx of
        Inl e \<Rightarrow> (Inl e, db)
      | Inr u \<Rightarrow>
          (case first (filter (\<lambda>s. s_id s = cs_id inp \<and> s_userId s = Some (u_id u)) (sessions db)) of
             None \<Rightarrow> (Inl (ActionError NOT_FOUND ''Study session not found.''), db)
           | Some session \<Rightarrow>
               (Inr (first (returning (\<lambda>s. s_id s = cs_id inp) (completeStudySession_set inp now session) (sessions db))),
                db\<lparr>sessions := update_where (\<lambda>s. s_id s = cs_id inp) (completeStudySession_set inp now session) (sessions db)\<rparr>)))"

definition completeStudySession :: "(complete_session_input, study_session option) handler" where
  "completeStudySession = defineAction Inr completeStudySession_handler"

section \<open>Review action\<close>

definition logReview_input :: "rating option log_review_input \<Rightarrow> issue list + rating log_review_input" where
  "logReview_input request =
     Inr \<lparr> lr_deckId = lr_deckId request,
           lr_cardId = lr_cardId request,
           lr_sessionId = lr_sessionId request,
           lr_rating = nullish (lr_rating request) good,
           lr_reviewedAt = lr_reviewedAt request,
           lr_dueAt = lr_dueAt request,
           lr_intervalDays = lr_intervalDays request,
           lr_easeFactor = lr_easeFactor request \<rparr>"

definition logReview_handler :: "(rating log_review_input, review) handler" where
  "logReview_handler inp ctx now db =
     (case requireUser ctx of
        Inl e \<Rightarrow> (Inl e, db)
      | Inr u \<Rightarrow>
          (case getDeckForUser (lr_deckId inp) (u_id u) db of
             Inl e \<Rightarrow> (Inl e, db)
           | Inr _ \<Rightarrow>
               (case first (filter (\<lambda>c. c_id c = lr_cardId inp \<and> c_deckId c = lr_deckId inp) (cards db)) of
                  None \<Rightarrow> (Inl (ActionError NOT_FOUND ''Card not found for this deck.''), db)
                | Some _ \<Rightarrow>
                    if truthy (lr_sessionId inp) \<and>
                       first (filter (\<lambda>s. Some (s_id s) = lr_sessionId inp \<and> s_userId s = Some (u_id u)) (sessions db)) = None
                    then (Inl (ActionError FORBIDDEN ''Session not found or not accessible.''), db)
                    else
                      (let review = \<lparr> r_id = next_id (map r_id (reviews db)),
                                      r_deckId = lr_deckId inp,
                                      r_cardId = lr_cardId inp,
                                      r_userId = Some (u_id u),
                                      r_sessionId = lr_sessionId inp,
                                      r_rating = lr_rating inp,
                                      r_reviewedAt = nullish (lr_reviewedAt inp) now,
                                      r_dueAt = lr_dueAt inp,
                                      r_intervalDays = nullish (lr_intervalDays inp) 0,
                                      r_easeFactor = lr_easeFactor inp \<rparr>
                       in if review_references db review
                          then (Inr review, db\<lparr>reviews := reviews db @ [review]\<rparr>)
                          else (Inl (InternalServerError FOREIGN_KEY_CONSTRAINT), db)))))"

definition logReview :: "(rating option log_review_input, review) handler" where
  "logReview = defineAction logReview_input logReview_handler"

section \<open>The server: every action of the API\<close>

datatype request =
    CreateDeck create_deck_input
  | UpdateDeck update_deck_input
  | ListDecks "bool option list_decks_input option"
  | UpsertCard upsert_card_input
  | ListCards "bool option list_cards_input"
  | StartStudySession start_session_input
  | CompleteStudySession complete_session_input
  | LogReview "rating option log_review_input"

datatype response =
    DeckData "deck option"
  | DeckItems "deck listing"
  | CardData "card option"
  | CardItems "card listing"
  | SessionData "study_session option"
  | ReviewData review

definition respond :: "('r \<Rightarrow> response) \<Rightarrow> (error + 'r) \<times> database \<Rightarrow> (error + response) \<times> database" where
  "respond wrap out = (map_sum (\<lambda>e. e) wrap (fst out), snd out)"

fun server :: "undefined_assignment \<Rightarrow> (request, response) handler" where
  "server undef (CreateDeck inp) ctx now db = respond (\<lambda>d. DeckData (Some d)) (createDeck inp ctx now db)"
| "server undef (UpdateDeck inp) ctx now db = respond DeckData (updateDeck inp ctx now db)"
| "server undef (ListDecks inp) ctx now db = respond DeckItems (listDecks inp ctx now db)"
| "server undef (UpsertCard inp) ctx now db = respond CardData (upsertCard undef inp ctx now db)"
| "server undef (ListCards inp) ctx now db = respond CardItems (listCards inp ctx now db)"
| "server undef (StartStudySession inp) ctx now db =
     respond (\<lambda>s. SessionData (Some s)) (startStudySession inp ctx now db)"
| "server undef (CompleteStudySession inp) ctx now db =
     respond SessionData (completeStudySession inp ctx now db)"
| "server undef (LogReview inp) ctx now db = respond ReviewData (logReview inp ctx now db)"

section \<open>Example data\<close>

text \<open>A small store and two callers, for the concrete instances below.\<close>

definition signed_in :: "string \<Rightarrow> action_context" where
  "signed_in uid = \<lparr> ctx_locals = Some \<lparr> l_user = Some \<lparr> u_id = uid \<rparr> \<rparr> \<rparr>"

definition anonymous :: action_context where
  "anonymous = \<lparr> ctx_locals = None \<rparr>"

definition deck_travel :: deck where
  "deck_travel = \<lparr> d_id = 1, d_ownerId = ''alice'', d_title = ''Travel'', d_description = Some ''trip'',
     d_fromLanguage = ''en'', d_toLanguage = ''de'', d_level = A1, d_tags = None,
     d_isActive = True, d_createdAt = 10, d_updatedAt = 10 \<rparr>"

definition deck_verbs :: deck where
  "deck_verbs = \<lparr> d_id = 2, d_ownerId = ''bob'', d_title = ''Verbs'', d_description = None,
     d_fromLanguage = ''en'', d_toLanguage = ''ja'', d_level = mixed, d_tags = None,
     d_isActive = True, d_createdAt = 11, d_updatedAt = 11 \<rparr>"

definition deck_old :: deck where
  "deck_old = \<lparr> d_id = 3, d_ownerId = ''alice'', d_title = ''Old'', d_description = None,
     d_fromLanguage = ''en'', d_toLanguage = ''en'', d_level = mixed, d_tags = None,
     d_isActive = False, d_createdAt = 12, d_updatedAt = 12 \<rparr>"

definition card_book :: card where
  "card_book = \<lparr> c_id = 1, c_deckId = 1, c_displayOrder = 5, c_term = ''book'',
     c_translation = ''Buch'', c_transliteration = Some ''bukh'', c_partOfSpeech = Some ''noun'',
     c_gender = Some ''n'', c_exampleSentence = None, c_exampleTranslation = None,
     c_phonetic = None, c_audioUrl = None, c_tags = None, c_isActive = False \<rparr>"

definition card_eat :: card where
  "card_eat = \<lparr> c_id = 2, c_deckId = 2, c_displayOrder = 0, c_term = ''eat'',
     c_translation = ''taberu'', c_transliteration = None, c_partOfSpeech = None,
     c_gender = None, c_exampleSentence = None, c_exampleTranslation = None,
     c_phonetic = None, c_audioUrl = None, c_tags = None, c_isActive = True \<rparr>"

definition session_alice :: study_session where
  "session_alice = \<lparr> s_id = 1, s_deckId = 1, s_userId = Some ''alice'', s_startedAt = 20,
     s_completedAt = None, s_totalCardsSeen = 0, s_correctCount = 0, s_wrongCount = 0,
     s_summary = None, s_createdAt = 20 \<rparr>"

definition session_bob :: study_session where
  "session_bob = \<lparr> s_id = 2, s_deckId = 2, s_userId = Some ''bob'', s_startedAt = 21,
     s_completedAt = None, s_totalCardsSeen = 0, s_correctCount = 0, s_wrongCount = 0,
     s_summary = None, s_createdAt = 21 \<rparr>"

definition demo_db :: database where
  "demo_db = \<lparr> decks = [deck_travel, deck_verbs, deck_old], cards = [card_book, card_eat],
     sessions = [session_alice, session_bob], reviews = [] \<rparr>"

text \<open>
  A history of calls: each call is served on the store the previous one left. The store
  starts empty.
\<close>

fun serve_all :: "undefined_assignment \<Rightarrow> (request \<times> action_context \<times> timestamp) list \<Rightarrow> database \<Rightarrow> database" where
  "serve_all undef [] db = db"
| "serve_all undef ((req, ctx, now) # calls) db = serve_all undef calls (snd (server undef req ctx now db))"

definition empty_db :: database where
  "empty_db = \<lparr> decks = [], cards = [], sessions = [], reviews = [] \<rparr>"

text \<open>The primary key of each table is unique.\<close>

definition keys_unique :: "database \<Rightarrow> bool" where
  "keys_unique db \<longleftrightarrow>
     distinct (map d_id (decks db)) \<and> distinct (map c_id (cards db)) \<and>
     distinct (map s_id (sessions db)) \<and> distinct (map r_id (reviews db))"

section \<open>Lemmas about the store\<close>

lemma first_filter_None: "first (filter P xs) = None \<longleftrightarrow> (\<forall>x \<in> set xs. \<not> P x)"
  by (induction xs) (auto simp: first_def)

lemma first_filter_Some: "first (filter P xs) = Some x \<Longrightarrow> x \<in> set xs \<and> P x"
  by (induction xs) (auto simp: first_def split: if_splits)

lemma first_filter_key:
  "distinct (map k xs) \<Longrightarrow> x \<in> set xs \<Longrightarrow> first (filter (\<lambda>r. k r = k x) xs) = Some x"
  by (induction xs) (auto simp: first_def)

lemma requireUser_signed_in: "requireUser (signed_in uid) = Inr \<lparr> u_id = uid \<rparr>"
  by (simp add: requireUser_def signed_in_def)

lemma first_returning:
  "first (filter P xs) = Some x \<Longrightarrow> first (returning P f xs) = Some (f x)"
  by (induction xs) (auto simp: first_def returning_def split: if_splits)

lemma update_where_key:
  "distinct (map k xs) \<Longrightarrow> x \<in> set xs \<Longrightarrow>
   update_where (\<lambda>r. k r = k x) f xs = map (\<lambda>r. if r = x then f x else r) xs"
proof -
  assume d: "distinct (map k xs)" and x: "x \<in> set xs"
  then have "inj_on k (set xs)"
    by (simp add: distinct_map)
  with x have "\<And>r. r \<in> set xs \<Longrightarrow> (k r = k x) = (r = x)"
    by (auto dest: inj_onD)
  then show ?thesis
    unfolding update_where_def by (intro map_cong) auto
qed

lemma key_unique:
  "distinct (map k xs) \<Longrightarrow> x \<in> set xs \<Longrightarrow> y \<in> set xs \<Longrightarrow> k x = k y \<Longrightarrow> x = y"
  by (auto simp: distinct_map dest: inj_onD)

lemmas demo_defs = demo_db_def deck_travel_def deck_verbs_def deck_old_def card_book_def
  card_eat_def session_alice_def session_bob_def signed_in_def anonymous_def

subsection \<open>Primary keys stay unique\<close>

text \<open>
  Every action keeps the primary keys of the four tables unique, so they are unique in
  every store that a history of calls reaches from the empty one.
\<close>

lemma next_id_above: "x \<in> set ids \<Longrightarrow> x < next_id ids"
  unfolding next_id_def by (induction ids) auto

lemma next_id_fresh: "next_id ids \<notin> set ids"
  using next_id_above [of "next_id ids" ids] by auto

lemma next_id_fresh_key: "next_id (map k xs) \<notin> k ` set xs"
  using next_id_fresh [of "map k xs"] by simp

lemma update_where_keys:
  "(\<And>r. k (f r) = k r) \<Longrightarrow> map k (update_where P f xs) = map k xs"
  by (simp add: update_where_def)

lemma updateDeck_set_id: "d_id (updateDeck_set inp now r) = d_id r"
  by (simp add: updateDeck_set_def)

lemma upsertCard_set_id: "c_id (upsertCard_set undef inp crd r) = c_id r"
  by (simp add: upsertCard_set_def)

lemma completeStudySession_set_id: "s_id (completeStudySession_set inp now session r) = s_id r"
  by (simp add: completeStudySession_set_def)

lemma server_keeps_keys_unique:
  assumes "keys_unique db"
  shows "keys_unique (snd (server undef req ctx now db))"
proof (cases req)
  case (CreateDeck inp)
  with assms show ?thesis
    by (simp add: keys_unique_def respond_def createDeck_def defineAction_def
        createDeck_handler_def Let_def next_id_fresh_key split: sum.splits)
next
  case (UpdateDeck inp)
  with assms show ?thesis
    by (simp add: keys_unique_def respond_def updateDeck_def defineAction_def
        updateDeck_handler_def update_where_keys updateDeck_set_id split: sum.splits)
next
  case (ListDecks inp)
  with assms show ?thesis
    by (simp add: keys_unique_def respond_def listDecks_def defineAction_def
        listDecks_handler_def Let_def split: sum.splits)
next
  case (UpsertCard inp)
  with assms show ?thesis
    by (simp add: keys_unique_def respond_def upsertCard_def defineAction_def
        upsertCard_handler_def Let_def next_id_fresh_key update_where_keys upsertCard_set_id
        split: sum.splits option.splits)
next
  case (ListCards inp)
  with assms show ?thesis
    by (simp add: keys_unique_def respond_def listCards_def defineAction_def
        listCards_handler_def Let_def split: sum.splits)
next
  case (StartStudySession inp)
  with assms show ?thesis
    by (simp add: keys_unique_def respond_def startStudySession_def defineAction_def
        startStudySession_handler_def Let_def next_id_fresh_key split: sum.splits)
next
  case (CompleteStudySession inp)
  with assms show ?thesis
    by (simp add: keys_unique_def respond_def completeStudySession_def defineAction_def
        completeStudySession_handler_def update_where_keys completeStudySession_set_id
        split: sum.splits option.splits)
next
  case (LogReview inp)
  with assms show ?thesis
    by (simp add: keys_unique_def respond_def logReview_def defineAction_def
        logReview_handler_def Let_def next_id_fresh_key split: sum.splits option.splits)
qed

lemma serve_all_keeps_keys_unique:
  "keys_unique db \<Longrightarrow> keys_unique (serve_all undef calls db)"
proof (induction calls arbitrary: db)
  case Nil
  then show ?case by simp
next
  case (Cons call calls)
  obtain req ctx now where call: "call = (req, ctx, now)"
    by (cases call) auto
  from Cons.prems have "keys_unique (snd (server undef req ctx now db))"
    by (rule server_keeps_keys_unique)
  then show ?case
    unfolding call by (simp add: Cons.IH)
qed

lemma keys_unique_reachable: "keys_unique (serve_all undef calls empty_db)"
  by (rule serve_all_keeps_keys_unique) (simp add: keys_unique_def empty_db_def)

section \<open>The ownership resolver\<close>

text \<open>
  Claim C1. getDeckForUser fails with NOT_FOUND when no deck has the identifier, fails
  with FORBIDDEN when the deck with the identifier (the primary key is unique) has
  another owner, and returns the deck otherwise. It only reads the store. updateDeck,
  upsertCard, listCards, startStudySession and logReview call it for the authenticated
  caller, and when it fails they fail with its error and leave the store as it was.
\<close>

theorem getDeckForUser_resolves:
  "((\<forall>d \<in> set (decks db). d_id d \<noteq> deckId) \<longrightarrow>
      getDeckForUser deckId userId db = Inl (ActionError NOT_FOUND ''Deck not found.'')) \<and>
   (distinct (map d_id (decks db)) \<and> d \<in> set (decks db) \<and> d_id d = deckId \<longrightarrow>
      getDeckForUser deckId userId db =
        (if d_ownerId d \<noteq> userId
         then Inl (ActionError FORBIDDEN ''You do not have access to this deck.'')
         else Inr d)) \<and>
   (requireUser ctx = Inr u \<longrightarrow>
      (getDeckForUser (ud_id inp1) (u_id u) db = Inl e \<longrightarrow> updateDeck_handler inp1 ctx now db = (Inl e, db)) \<and>
      (getDeckForUser (uc_deckId inp2) (u_id u) db = Inl e \<longrightarrow> upsertCard_handler undef inp2 ctx now db = (Inl e, db)) \<and>
      (getDeckForUser (lc_deckId inp3) (u_id u) db = Inl e \<longrightarrow> listCards_handler inp3 ctx now db = (Inl e, db)) \<and>
      (getDeckForUser (ss_deckId inp4) (u_id u) db = Inl e \<longrightarrow> startStudySession_handler inp4 ctx now db = (Inl e, db)) \<and>
      (getDeckForUser (lr_deckId inp5) (u_id u) db = Inl e \<longrightarrow> logReview_handler inp5 ctx now db = (Inl e, db)))"
proof (intro conjI impI)
  assume "\<forall>d \<in> set (decks db). d_id d \<noteq> deckId"
  then have "first (filter (\<lambda>d. d_id d = deckId) (decks db)) = None"
    using first_filter_None [of "\<lambda>d. d_id d = deckId" "decks db"] by blast
  then show "getDeckForUser deckId userId db = Inl (ActionError NOT_FOUND ''Deck not found.'')"
    by (simp add: getDeckForUser_def)
next
  assume "distinct (map d_id (decks db)) \<and> d \<in> set (decks db) \<and> d_id d = deckId"
  then have "first (filter (\<lambda>r. d_id r = deckId) (decks db)) = Some d"
    using first_filter_key [of d_id "decks db" d] by auto
  then show "getDeckForUser deckId userId db =
        (if d_ownerId d \<noteq> userId
         then Inl (ActionError FORBIDDEN ''You do not have access to this deck.'')
         else Inr d)"
    by (simp add: getDeckForUser_def)
qed (simp_all add: updateDeck_handler_def upsertCard_handler_def listCards_handler_def
       startStudySession_handler_def logReview_handler_def)

theorem getDeckForUser_resolves_witness:
  "getDeckForUser 9 ''alice'' demo_db = Inl (ActionError NOT_FOUND ''Deck not found.'') \<and>
   getDeckForUser 2 ''alice'' demo_db = Inl (ActionError FORBIDDEN ''You do not have access to this deck.'') \<and>
   getDeckForUser 1 ''alice'' demo_db = Inr deck_travel \<and>
   startStudySession_handler \<lparr> ss_deckId = 2 \<rparr> (signed_in ''alice'') 30 demo_db =
     (Inl (ActionError FORBIDDEN ''You do not have access to this deck.''), demo_db)"
proof -
  have ids: "distinct (map d_id (decks demo_db))"
    by (simp add: demo_defs)
  have missing: "\<forall>d \<in> set (decks demo_db). d_id d \<noteq> 9"
    by (simp add: demo_defs)
  have travel: "deck_travel \<in> set (decks demo_db)" "d_id deck_travel = 1" "d_ownerId deck_travel = ''alice''"
    by (simp_all add: demo_defs)
  have verbs: "deck_verbs \<in> set (decks demo_db)" "d_id deck_verbs = 2" "d_ownerId deck_verbs \<noteq> ''alice''"
    by (simp_all add: demo_defs)
  have user: "requireUser (signed_in ''alice'') = Inr \<lparr> u_id = ''alice'' \<rparr>"
    by (rule requireUser_signed_in)
  have a: "getDeckForUser 9 ''alice'' demo_db = Inl (ActionError NOT_FOUND ''Deck not found.'')"
    using getDeckForUser_resolves [where db = demo_db and deckId = 9 and userId = "''alice''"] missing
    by blast
  have b: "getDeckForUser 2 ''alice'' demo_db = Inl (ActionError FORBIDDEN ''You do not have access to this deck.'')"
    using getDeckForUser_resolves [where db = demo_db and deckId = 2 and userId = "''alice''" and d = deck_verbs]
      ids verbs by simp
  have c: "getDeckForUser 1 ''alice'' demo_db = Inr deck_travel"
    using getDeckForUser_resolves [where db = demo_db and deckId = 1 and userId = "''alice''" and d = deck_travel]
      ids travel by simp
  have d: "startStudySession_handler \<lparr> ss_deckId = 2 \<rparr> (signed_in ''alice'') 30 demo_db =
     (Inl (ActionError FORBIDDEN ''You do not have access to this deck.''), demo_db)"
    using getDeckForUser_resolves [where db = demo_db and ctx = "signed_in ''alice''"
        and u = "\<lparr> u_id = ''alice'' \<rparr>" and ?inp4.0 = "\<lparr> ss_deckId = 2 \<rparr>"
        and e = "ActionError FORBIDDEN ''You do not have access to this deck.''" and now = 30]
      user b by simp
  from a b c d show ?thesis by blast
qed

section \<open>Deck actions\<close>

text \<open>
  Claim C6. An updateDeck request with none of title, description, fromLanguage,
  toLanguage, level, tags and isActive is rejected by the input schema, with the issue
  of its refinement, whatever the id, the caller and the store are: the handler does not
  run, so no authentication, no ownership check and no write happens, and the store is
  left as it was.
\<close>

theorem updateDeck_requires_field:
  assumes "ud_title inp = None" and "ud_description inp = None" and "ud_fromLanguage inp = None"
    and "ud_toLanguage inp = None" and "ud_level inp = None" and "ud_tags inp = None"
    and "ud_isActive inp = None"
  shows "updateDeck inp ctx now db =
           (Inl (InputError [custom ''At least one field must be provided to update.'']), db)"
  using assms by (simp add: updateDeck_def defineAction_def updateDeck_input_def updateDeck_refine_def)

theorem updateDeck_requires_field_witness:
  "updateDeck \<lparr> ud_id = 9, ud_title = None, ud_description = None, ud_fromLanguage = None,
      ud_toLanguage = None, ud_level = None, ud_tags = None, ud_isActive = None \<rparr>
     anonymous 40 demo_db =
     (Inl (InputError [custom ''At least one field must be provided to update.'']), demo_db) \<and>
   updateDeck \<lparr> ud_id = 2, ud_title = None, ud_description = None, ud_fromLanguage = None,
      ud_toLanguage = None, ud_level = None, ud_tags = None, ud_isActive = None \<rparr>
     (signed_in ''alice'') 40 demo_db =
     (Inl (InputError [custom ''At least one field must be provided to update.'']), demo_db) \<and>
   requireUser anonymous = Inl (ActionError UNAUTHORIZED ''You must be signed in to perform this action.'') \<and>
   getDeckForUser 9 ''alice'' demo_db = Inl (ActionError NOT_FOUND ''Deck not found.'') \<and>
   getDeckForUser 2 ''alice'' demo_db = Inl (ActionError FORBIDDEN ''You do not have access to this deck.'')"
proof -
  have a: "updateDeck \<lparr> ud_id = 9, ud_title = None, ud_description = None, ud_fromLanguage = None,
      ud_toLanguage = None, ud_level = None, ud_tags = None, ud_isActive = None \<rparr>
     anonymous 40 demo_db =
     (Inl (InputError [custom ''At least one field must be provided to update.'']), demo_db)"
    by (rule updateDeck_requires_field) simp_all
  have b: "updateDeck \<lparr> ud_id = 2, ud_title = None, ud_description = None, ud_fromLanguage = None,
      ud_toLanguage = None, ud_level = None, ud_tags = None, ud_isActive = None \<rparr>
     (signed_in ''alice'') 40 demo_db =
     (Inl (InputError [custom ''At least one field must be provided to update.'']), demo_db)"
    by (rule updateDeck_requires_field) simp_all
  have c: "requireUser anonymous = Inl (ActionError UNAUTHORIZED ''You must be signed in to perform this action.'')"
    by (simp add: requireUser_def anonymous_def)
  have d: "getDeckForUser 9 ''alice'' demo_db = Inl (ActionError NOT_FOUND ''Deck not found.'')"
    by (simp add: getDeckForUser_def first_def demo_defs)
  have e: "getDeckForUser 2 ''alice'' demo_db = Inl (ActionError FORBIDDEN ''You do not have access to this deck.'')"
    by (simp add: getDeckForUser_def first_def demo_defs)
  from a b c d e show ?thesis by blast
qed

text \<open>
  Claim C5. An updateDeck call of an authenticated caller that the schema accepts, on a
  deck the caller owns, returns the deck with exactly the supplied fields overwritten:
  every omitted field keeps its value, id, ownerId and createdAt (which no request
  carries) keep theirs, and updatedAt is the current time. In the store the rows with
  that id are rewritten in the same way and every other row and table is untouched.
\<close>

theorem updateDeck_overwrites_supplied:
  assumes user: "requireUser ctx = Inr u"
    and valid: "updateDeck_input inp = Inr inp"
    and owned: "getDeckForUser (ud_id inp) (u_id u) db = Inr d"
  shows "\<exists>d'. updateDeck inp ctx now db =
           (Inr (Some d'),
            db\<lparr>decks := map (\<lambda>r. if d_id r = ud_id inp then updateDeck_set inp now r else r) (decks db)\<rparr>) \<and>
         d' = updateDeck_set inp now d \<and>
         d_id d' = d_id d \<and> d_ownerId d' = d_ownerId d \<and> d_createdAt d' = d_createdAt d \<and>
         d_updatedAt d' = now \<and>
         d_title d' = (case ud_title inp of None \<Rightarrow> d_title d | Some v \<Rightarrow> v) \<and>
         d_description d' = (case ud_description inp of None \<Rightarrow> d_description d | Some v \<Rightarrow> Some v) \<and>
         d_fromLanguage d' = (case ud_fromLanguage inp of None \<Rightarrow> d_fromLanguage d | Some v \<Rightarrow> v) \<and>
         d_toLanguage d' = (case ud_toLanguage inp of None \<Rightarrow> d_toLanguage d | Some v \<Rightarrow> v) \<and>
         d_level d' = (case ud_level inp of None \<Rightarrow> d_level d | Some v \<Rightarrow> v) \<and>
         d_tags d' = (case ud_tags inp of None \<Rightarrow> d_tags d | Some v \<Rightarrow> Some v) \<and>
         d_isActive d' = (case ud_isActive inp of None \<Rightarrow> d_isActive d | Some v \<Rightarrow> v)"
proof -
  from owned have found: "first (filter (\<lambda>r. d_id r = ud_id inp) (decks db)) = Some d"
    by (auto simp: getDeckForUser_def split: option.splits if_splits)
  then have ret: "first (returning (\<lambda>r. d_id r = ud_id inp) (updateDeck_set inp now) (decks db)) =
      Some (updateDeck_set inp now d)"
    by (rule first_returning)
  have run: "updateDeck inp ctx now db =
      (Inr (Some (updateDeck_set inp now d)),
       db\<lparr>decks := map (\<lambda>r. if d_id r = ud_id inp then updateDeck_set inp now r else r) (decks db)\<rparr>)"
    using user valid owned ret
    by (simp add: updateDeck_def defineAction_def updateDeck_handler_def update_where_def)
  have fields:
    "d_id (updateDeck_set inp now d) = d_id d"
    "d_ownerId (updateDeck_set inp now d) = d_ownerId d"
    "d_createdAt (updateDeck_set inp now d) = d_createdAt d"
    "d_updatedAt (updateDeck_set inp now d) = now"
    "d_title (updateDeck_set inp now d) = (case ud_title inp of None \<Rightarrow> d_title d | Some v \<Rightarrow> v)"
    "d_description (updateDeck_set inp now d) = (case ud_description inp of None \<Rightarrow> d_description d | Some v \<Rightarrow> Some v)"
    "d_fromLanguage (updateDeck_set inp now d) = (case ud_fromLanguage inp of None \<Rightarrow> d_fromLanguage d | Some v \<Rightarrow> v)"
    "d_toLanguage (updateDeck_set inp now d) = (case ud_toLanguage inp of None \<Rightarrow> d_toLanguage d | Some v \<Rightarrow> v)"
    "d_level (updateDeck_set inp now d) = (case ud_level inp of None \<Rightarrow> d_level d | Some v \<Rightarrow> v)"
    "d_tags (updateDeck_set inp now d) = (case ud_tags inp of None \<Rightarrow> d_tags d | Some v \<Rightarrow> Some v)"
    "d_isActive (updateDeck_set inp now d) = (case ud_isActive inp of None \<Rightarrow> d_isActive d | Some v \<Rightarrow> v)"
    by (simp_all add: updateDeck_set_def nullish_def)
  from run fields show ?thesis by blast
qed

theorem updateDeck_overwrites_supplied_witness:
  "requireUser (signed_in ''alice'') = Inr \<lparr> u_id = ''alice'' \<rparr> \<and>
   getDeckForUser 1 ''alice'' demo_db = Inr deck_travel \<and>
   updateDeck \<lparr> ud_id = 1, ud_title = Some ''Trips'', ud_description = None, ud_fromLanguage = None,
       ud_toLanguage = None, ud_level = None, ud_tags = None, ud_isActive = Some False \<rparr>
     (signed_in ''alice'') 50 demo_db =
     (Inr (Some (deck_travel\<lparr> d_title := ''Trips'', d_isActive := False, d_updatedAt := 50 \<rparr>)),
      demo_db\<lparr> decks := [deck_travel\<lparr> d_title := ''Trips'', d_isActive := False, d_updatedAt := 50 \<rparr>,
                         deck_verbs, deck_old] \<rparr>)"
proof -
  let ?inp = "\<lparr> ud_id = 1, ud_title = Some ''Trips'', ud_description = None, ud_fromLanguage = None,
       ud_toLanguage = None, ud_level = None, ud_tags = None, ud_isActive = Some False \<rparr>"
  have user: "requireUser (signed_in ''alice'') = Inr \<lparr> u_id = ''alice'' \<rparr>"
    by (rule requireUser_signed_in)
  have valid: "updateDeck_input ?inp = Inr ?inp"
    by (simp add: updateDeck_input_def)
  have owned: "getDeckForUser 1 ''alice'' demo_db = Inr deck_travel"
    by (simp add: getDeckForUser_def first_def demo_defs)
  have owned': "getDeckForUser (ud_id ?inp) (u_id \<lparr> u_id = ''alice'' \<rparr>) demo_db = Inr deck_travel"
    using owned by simp
  from updateDeck_overwrites_supplied [OF user valid owned', of 50]
  obtain d' where run: "updateDeck ?inp (signed_in ''alice'') 50 demo_db =
           (Inr (Some d'),
            demo_db\<lparr>decks := map (\<lambda>r. if d_id r = ud_id ?inp then updateDeck_set ?inp 50 r else r) (decks demo_db)\<rparr>)"
    and d': "d' = updateDeck_set ?inp 50 deck_travel"
    by blast
  have set1: "updateDeck_set ?inp 50 deck_travel =
      deck_travel\<lparr> d_title := ''Trips'', d_isActive := False, d_updatedAt := 50 \<rparr>"
    by (simp add: updateDeck_set_def nullish_def deck_travel_def)
  have rows: "map (\<lambda>r. if d_id r = ud_id ?inp then updateDeck_set ?inp 50 r else r) (decks demo_db) =
      [deck_travel\<lparr> d_title := ''Trips'', d_isActive := False, d_updatedAt := 50 \<rparr>, deck_verbs, deck_old]"
    by (simp add: demo_db_def set1) (simp add: deck_verbs_def deck_old_def deck_travel_def)
  from user owned run d' set1 rows show ?thesis by simp
qed

text \<open>
  Claim C8. For an authenticated caller, listDecks returns exactly the decks of the store
  whose ownerId is the caller's id, restricted to the active ones unless includeInactive
  is true (it is false when the input or the field is absent); total is the number of
  returned items, and the store is left as it was.
\<close>

theorem listDecks_returns_owned:
  assumes user: "requireUser ctx = Inr u"
    and incl: "incl = (case request of None \<Rightarrow> False
                       | Some r \<Rightarrow> (case ld_includeInactive r of None \<Rightarrow> False | Some b \<Rightarrow> b))"
  shows "\<exists>rows. listDecks request ctx now db = (Inr \<lparr> items = rows, total = length rows \<rparr>, db) \<and>
           rows = filter (\<lambda>d. d_ownerId d = u_id u \<and> (incl \<or> d_isActive d)) (decks db) \<and>
           (\<forall>d. d \<in> set rows \<longleftrightarrow> d \<in> set (decks db) \<and> d_ownerId d = u_id u \<and> (incl \<or> d_isActive d)) \<and>
           (\<not> incl \<longrightarrow> (\<forall>d \<in> set rows. d_isActive d))"
proof -
  have incl': "nullish (map_option ld_includeInactive
        (map_option (\<lambda>r. \<lparr> ld_includeInactive = nullish (ld_includeInactive r) False \<rparr>) request)) False = incl"
    unfolding incl by (simp add: nullish_def split: option.splits)
  have sel: "filter (if incl then (\<lambda>d. d_ownerId d = u_id u)
                     else (\<lambda>d. d_ownerId d = u_id u \<and> d_isActive d = True)) (decks db) =
             filter (\<lambda>d. d_ownerId d = u_id u \<and> (incl \<or> d_isActive d)) (decks db)"
    by (cases incl) simp_all
  have "listDecks request ctx now db =
      (Inr \<lparr> items = filter (\<lambda>d. d_ownerId d = u_id u \<and> (incl \<or> d_isActive d)) (decks db),
             total = length (filter (\<lambda>d. d_ownerId d = u_id u \<and> (incl \<or> d_isActive d)) (decks db)) \<rparr>, db)"
    using user
    by (simp add: listDecks_def defineAction_def listDecks_input_def listDecks_handler_def
        incl' sel Let_def)
  then show ?thesis by auto
qed

theorem listDecks_returns_owned_witness:
  "requireUser (signed_in ''alice'') = Inr \<lparr> u_id = ''alice'' \<rparr> \<and>
   listDecks None (signed_in ''alice'') 60 demo_db =
     (Inr \<lparr> items = [deck_travel], total = 1 \<rparr>, demo_db) \<and>
   listDecks (Some \<lparr> ld_includeInactive = Some True \<rparr>) (signed_in ''alice'') 60 demo_db =
     (Inr \<lparr> items = [deck_travel, deck_old], total = 2 \<rparr>, demo_db) \<and>
   d_isActive deck_travel \<and> \<not> d_isActive deck_old"
proof -
  have user: "requireUser (signed_in ''alice'') = Inr \<lparr> u_id = ''alice'' \<rparr>"
    by (rule requireUser_signed_in)
  have f1: "filter (\<lambda>d. d_ownerId d = ''alice'' \<and> (False \<or> d_isActive d)) (decks demo_db) = [deck_travel]"
    by (simp add: demo_defs)
  have f2: "filter (\<lambda>d. d_ownerId d = ''alice'' \<and> (True \<or> d_isActive d)) (decks demo_db) = [deck_travel, deck_old]"
    by (simp add: demo_defs)
  have a: "listDecks None (signed_in ''alice'') 60 demo_db =
     (Inr \<lparr> items = [deck_travel], total = 1 \<rparr>, demo_db)"
    using listDecks_returns_owned [OF user, where request = None and incl = False and now = 60 and db = demo_db] f1
    by simp
  have b: "listDecks (Some \<lparr> ld_includeInactive = Some True \<rparr>) (signed_in ''alice'') 60 demo_db =
     (Inr \<lparr> items = [deck_travel, deck_old], total = 2 \<rparr>, demo_db)"
    using listDecks_returns_owned [OF user, where request = "Some \<lparr> ld_includeInactive = Some True \<rparr>"
        and incl = True and now = 60 and db = demo_db] f2
    by simp
  have c: "d_isActive deck_travel \<and> \<not> d_isActive deck_old"
    by (simp add: demo_defs)
  from user a b c show ?thesis by blast
qed

section \<open>Study sessions\<close>

text \<open>
  Claim C7. For an authenticated caller, completeStudySession fails with NOT_FOUND when no
  session has both the id and the caller's userId: in particular when the session with
  that id belongs to another user. Otherwise it succeeds, and in the returned session
  totalCardsSeen, correctCount, wrongCount and summary keep the stored value when the
  request omits them, completedAt is the supplied value or else the current time, and
  the remaining columns are unchanged.
\<close>

theorem completeStudySession_spec:
  assumes user: "requireUser ctx = Inr u"
  shows "((\<forall>s \<in> set (sessions db). \<not> (s_id s = cs_id inp \<and> s_userId s = Some (u_id u))) \<longrightarrow>
            completeStudySession inp ctx now db =
              (Inl (ActionError NOT_FOUND ''Study session not found.''), db)) \<and>
         (distinct (map s_id (sessions db)) \<and> s \<in> set (sessions db) \<and> s_id s = cs_id inp \<and>
            s_userId s \<noteq> Some (u_id u) \<longrightarrow>
            completeStudySession inp ctx now db =
              (Inl (ActionError NOT_FOUND ''Study session not found.''), db)) \<and>
         (distinct (map s_id (sessions db)) \<and> s \<in> set (sessions db) \<and> s_id s = cs_id inp \<and>
            s_userId s = Some (u_id u) \<longrightarrow>
            (\<exists>s'. completeStudySession inp ctx now db =
                (Inr (Some s'), db\<lparr>sessions := map (\<lambda>r. if r = s then s' else r) (sessions db)\<rparr>) \<and>
              s_totalCardsSeen s' = (case cs_totalCardsSeen inp of None \<Rightarrow> s_totalCardsSeen s | Some v \<Rightarrow> v) \<and>
              s_correctCount s' = (case cs_correctCount inp of None \<Rightarrow> s_correctCount s | Some v \<Rightarrow> v) \<and>
              s_wrongCount s' = (case cs_wrongCount inp of None \<Rightarrow> s_wrongCount s | Some v \<Rightarrow> v) \<and>
              s_summary s' = (case cs_summary inp of None \<Rightarrow> s_summary s | Some v \<Rightarrow> Some v) \<and>
              s_completedAt s' = Some (case cs_completedAt inp of None \<Rightarrow> now | Some t \<Rightarrow> t) \<and>
              s_id s' = s_id s \<and> s_deckId s' = s_deckId s \<and> s_userId s' = s_userId s \<and>
              s_startedAt s' = s_startedAt s \<and> s_createdAt s' = s_createdAt s))"
proof (intro conjI impI)
  assume none: "\<forall>s \<in> set (sessions db). \<not> (s_id s = cs_id inp \<and> s_userId s = Some (u_id u))"
  have "first (filter (\<lambda>s. s_id s = cs_id inp \<and> s_userId s = Some (u_id u)) (sessions db)) = None"
    using first_filter_None [of "\<lambda>s. s_id s = cs_id inp \<and> s_userId s = Some (u_id u)" "sessions db"] none
    by blast
  with user show "completeStudySession inp ctx now db =
      (Inl (ActionError NOT_FOUND ''Study session not found.''), db)"
    by (simp add: completeStudySession_def defineAction_def completeStudySession_handler_def)
next
  assume other: "distinct (map s_id (sessions db)) \<and> s \<in> set (sessions db) \<and> s_id s = cs_id inp \<and>
            s_userId s \<noteq> Some (u_id u)"
  then have "\<forall>r \<in> set (sessions db). \<not> (s_id r = cs_id inp \<and> s_userId r = Some (u_id u))"
    using key_unique [of s_id "sessions db" s] by metis
  then have "first (filter (\<lambda>s. s_id s = cs_id inp \<and> s_userId s = Some (u_id u)) (sessions db)) = None"
    using first_filter_None [of "\<lambda>s. s_id s = cs_id inp \<and> s_userId s = Some (u_id u)" "sessions db"]
    by blast
  with user show "completeStudySession inp ctx now db =
      (Inl (ActionError NOT_FOUND ''Study session not found.''), db)"
    by (simp add: completeStudySession_def defineAction_def completeStudySession_handler_def)
next
  assume own: "distinct (map s_id (sessions db)) \<and> s \<in> set (sessions db) \<and> s_id s = cs_id inp \<and>
            s_userId s = Some (u_id u)"
  let ?f = "completeStudySession_set inp now s"
  from own have byid: "first (filter (\<lambda>r. s_id r = s_id s) (sessions db)) = Some s"
    using first_filter_key [of s_id "sessions db" s] by blast
  from own have "\<And>r. r \<in> set (sessions db) \<Longrightarrow>
      (s_id r = cs_id inp \<and> s_userId r = Some (u_id u)) = (s_id r = s_id s)"
    using key_unique [of s_id "sessions db" s] by metis
  then have "filter (\<lambda>r. s_id r = cs_id inp \<and> s_userId r = Some (u_id u)) (sessions db) =
      filter (\<lambda>r. s_id r = s_id s) (sessions db)"
    by (intro filter_cong) auto
  with byid have found: "first (filter (\<lambda>r. s_id r = cs_id inp \<and> s_userId r = Some (u_id u)) (sessions db)) = Some s"
    by simp
  from own have sid: "cs_id inp = s_id s"
    by simp
  from byid have ret: "first (returning (\<lambda>r. s_id r = cs_id inp) ?f (sessions db)) = Some (?f s)"
    unfolding sid by (rule first_returning)
  from own have upd: "update_where (\<lambda>r. s_id r = cs_id inp) ?f (sessions db) =
      map (\<lambda>r. if r = s then ?f s else r) (sessions db)"
    unfolding sid using update_where_key [of s_id "sessions db" s ?f] by blast
  have run: "completeStudySession inp ctx now db =
      (Inr (Some (?f s)), db\<lparr>sessions := map (\<lambda>r. if r = s then ?f s else r) (sessions db)\<rparr>)"
    using user found ret upd
    by (simp add: completeStudySession_def defineAction_def completeStudySession_handler_def)
  have fields:
    "s_totalCardsSeen (?f s) = (case cs_totalCardsSeen inp of None \<Rightarrow> s_totalCardsSeen s | Some v \<Rightarrow> v)"
    "s_correctCount (?f s) = (case cs_correctCount inp of None \<Rightarrow> s_correctCount s | Some v \<Rightarrow> v)"
    "s_wrongCount (?f s) = (case cs_wrongCount inp of None \<Rightarrow> s_wrongCount s | Some v \<Rightarrow> v)"
    "s_summary (?f s) = (case cs_summary inp of None \<Rightarrow> s_summary s | Some v \<Rightarrow> Some v)"
    "s_completedAt (?f s) = Some (case cs_completedAt inp of None \<Rightarrow> now | Some t \<Rightarrow> t)"
    "s_id (?f s) = s_id s" "s_deckId (?f s) = s_deckId s" "s_userId (?f s) = s_userId s"
    "s_startedAt (?f s) = s_startedAt s" "s_createdAt (?f s) = s_createdAt s"
    by (simp_all add: completeStudySession_set_def nullish_def)
  from run fields show "\<exists>s'. completeStudySession inp ctx now db =
                (Inr (Some s'), db\<lparr>sessions := map (\<lambda>r. if r = s then s' else r) (sessions db)\<rparr>) \<and>
              s_totalCardsSeen s' = (case cs_totalCardsSeen inp of None \<Rightarrow> s_totalCardsSeen s | Some v \<Rightarrow> v) \<and>
              s_correctCount s' = (case cs_correctCount inp of None \<Rightarrow> s_correctCount s | Some v \<Rightarrow> v) \<and>
              s_wrongCount s' = (case cs_wrongCount inp of None \<Rightarrow> s_wrongCount s | Some v \<Rightarrow> v) \<and>
              s_summary s' = (case cs_summary inp of None \<Rightarrow> s_summary s | Some v \<Rightarrow> Some v) \<and>
              s_completedAt s' = Some (case cs_completedAt inp of None \<Rightarrow> now | Some t \<Rightarrow> t) \<and>
              s_id s' = s_id s \<and> s_deckId s' = s_deckId s \<and> s_userId s' = s_userId s \<and>
              s_startedAt s' = s_startedAt s \<and> s_createdAt s' = s_createdAt s"
    by blast
qed

theorem completeStudySession_spec_witness:
  "requireUser (signed_in ''alice'') = Inr \<lparr> u_id = ''alice'' \<rparr> \<and>
   completeStudySession \<lparr> cs_id = 9, cs_totalCardsSeen = None, cs_correctCount = None,
       cs_wrongCount = None, cs_summary = None, cs_completedAt = None \<rparr> (signed_in ''alice'') 70 demo_db =
     (Inl (ActionError NOT_FOUND ''Study session not found.''), demo_db) \<and>
   completeStudySession \<lparr> cs_id = 2, cs_totalCardsSeen = None, cs_correctCount = None,
       cs_wrongCount = None, cs_summary = None, cs_completedAt = None \<rparr> (signed_in ''alice'') 70 demo_db =
     (Inl (ActionError NOT_FOUND ''Study session not found.''), demo_db) \<and>
   completeStudySession \<lparr> cs_id = 1, cs_totalCardsSeen = None, cs_correctCount = Some 4,
       cs_wrongCount = None, cs_summary = None, cs_completedAt = None \<rparr> (signed_in ''alice'') 70 demo_db =
     (Inr (Some (session_alice\<lparr> s_correctCount := 4, s_completedAt := Some 70 \<rparr>)),
      demo_db\<lparr> sessions := [session_alice\<lparr> s_correctCount := 4, s_completedAt := Some 70 \<rparr>, session_bob] \<rparr>)"
proof -
  let ?u = "\<lparr> u_id = ''alice'' \<rparr>"
  let ?none = "\<lparr> cs_id = 9, cs_totalCardsSeen = None, cs_correctCount = None,
       cs_wrongCount = None, cs_summary = None, cs_completedAt = None \<rparr>"
  let ?bobs = "\<lparr> cs_id = 2, cs_totalCardsSeen = None, cs_correctCount = None,
       cs_wrongCount = None, cs_summary = None, cs_completedAt = None \<rparr>"
  let ?mine = "\<lparr> cs_id = 1, cs_totalCardsSeen = None, cs_correctCount = Some 4,
       cs_wrongCount = None, cs_summary = None, cs_completedAt = None \<rparr>"
  have user: "requireUser (signed_in ''alice'') = Inr ?u"
    by (rule requireUser_signed_in)
  have ids: "distinct (map s_id (sessions demo_db))"
    by (simp add: demo_defs)
  have missing: "\<forall>s \<in> set (sessions demo_db). \<not> (s_id s = cs_id ?none \<and> s_userId s = Some (u_id ?u))"
    by (simp add: demo_defs)
  have bob: "session_bob \<in> set (sessions demo_db)" "s_id session_bob = cs_id ?bobs"
      "s_userId session_bob \<noteq> Some (u_id ?u)"
    by (simp_all add: demo_defs)
  have alice: "session_alice \<in> set (sessions demo_db)" "s_id session_alice = cs_id ?mine"
      "s_userId session_alice = Some (u_id ?u)"
    by (simp_all add: demo_defs)
  have a: "completeStudySession ?none (signed_in ''alice'') 70 demo_db =
     (Inl (ActionError NOT_FOUND ''Study session not found.''), demo_db)"
    using completeStudySession_spec [OF user, where db = demo_db and inp = ?none] missing by blast
  have b: "completeStudySession ?bobs (signed_in ''alice'') 70 demo_db =
     (Inl (ActionError NOT_FOUND ''Study session not found.''), demo_db)"
    using completeStudySession_spec [OF user, where db = demo_db and inp = ?bobs and s = session_bob]
      ids bob by blast
  from completeStudySession_spec [OF user, where db = demo_db and inp = ?mine and s = session_alice
      and now = 70] ids alice
  obtain s' where run: "completeStudySession ?mine (signed_in ''alice'') 70 demo_db =
        (Inr (Some s'), demo_db\<lparr>sessions := map (\<lambda>r. if r = session_alice then s' else r) (sessions demo_db)\<rparr>)"
    and fields: "s_totalCardsSeen s' = s_totalCardsSeen session_alice" "s_correctCount s' = 4"
      "s_wrongCount s' = s_wrongCount session_alice" "s_summary s' = s_summary session_alice"
      "s_completedAt s' = Some 70" "s_id s' = s_id session_alice" "s_deckId s' = s_deckId session_alice"
      "s_userId s' = s_userId session_alice" "s_startedAt s' = s_startedAt session_alice"
      "s_createdAt s' = s_createdAt session_alice"
    by auto
  from fields have s': "s' = session_alice\<lparr> s_correctCount := 4, s_completedAt := Some 70 \<rparr>"
    by (cases s') (simp add: session_alice_def)
  have rows: "map (\<lambda>r. if r = session_alice then s' else r) (sessions demo_db) = [s', session_bob]"
    by (simp add: demo_db_def) (simp add: session_alice_def session_bob_def)
  from user a b run s' rows show ?thesis by simp
qed

subsection \<open>What the server does to the sessions table\<close>

lemma server_sessions_cases:
  "sessions (snd (server undef req ctx now db)) = sessions db \<or>
   (\<exists>inp u. req = StartStudySession inp \<and> requireUser ctx = Inr u \<and>
      sessions (snd (server undef req ctx now db)) =
        sessions db @ [\<lparr> s_id = next_id (map s_id (sessions db)), s_deckId = ss_deckId inp,
                         s_userId = Some (u_id u), s_startedAt = now, s_completedAt = None,
                         s_totalCardsSeen = 0, s_correctCount = 0, s_wrongCount = 0,
                         s_summary = None, s_createdAt = now \<rparr>]) \<or>
   (\<exists>inp u session. req = CompleteStudySession inp \<and> requireUser ctx = Inr u \<and>
      first (filter (\<lambda>s. s_id s = cs_id inp \<and> s_userId s = Some (u_id u)) (sessions db)) = Some session \<and>
      sessions (snd (server undef req ctx now db)) =
        update_where (\<lambda>s. s_id s = cs_id inp) (completeStudySession_set inp now session) (sessions db))"
proof (cases req)
  case (CreateDeck inp)
  then show ?thesis
    by (simp add: respond_def createDeck_def defineAction_def createDeck_handler_def Let_def
        split: sum.splits)
next
  case (UpdateDeck inp)
  then show ?thesis
    by (simp add: respond_def updateDeck_def defineAction_def updateDeck_handler_def
        split: sum.splits)
next
  case (ListDecks inp)
  then show ?thesis
    by (simp add: respond_def listDecks_def defineAction_def listDecks_handler_def Let_def
        split: sum.splits)
next
  case (UpsertCard inp)
  then show ?thesis
    by (simp add: respond_def upsertCard_def defineAction_def upsertCard_handler_def Let_def
        split: sum.splits option.splits)
next
  case (ListCards inp)
  then show ?thesis
    by (simp add: respond_def listCards_def defineAction_def listCards_handler_def Let_def
        split: sum.splits)
next
  case (StartStudySession inp)
  then show ?thesis
    by (simp add: respond_def startStudySession_def defineAction_def startStudySession_handler_def
        Let_def split: sum.splits)
next
  case (CompleteStudySession inp)
  then show ?thesis
    by (simp add: respond_def completeStudySession_def defineAction_def
        completeStudySession_handler_def split: sum.splits option.splits)
next
  case (LogReview inp)
  then show ?thesis
    by (simp add: respond_def logReview_def defineAction_def logReview_handler_def Let_def
        split: sum.splits option.splits)
qed

lemma server_keeps_session_users:
  assumes "\<forall>s \<in> set (sessions db). s_userId s \<noteq> None"
  shows "\<forall>s \<in> set (sessions (snd (server undef req ctx now db))). s_userId s \<noteq> None"
  using server_sessions_cases [of undef req ctx now db] assms
  by (auto simp: update_where_def completeStudySession_set_def)

lemma serve_all_keeps_session_users:
  "\<forall>s \<in> set (sessions db). s_userId s \<noteq> None \<Longrightarrow>
   \<forall>s \<in> set (sessions (serve_all undef calls db)). s_userId s \<noteq> None"
proof (induction calls arbitrary: db)
  case Nil
  then show ?case by simp
next
  case (Cons call calls)
  obtain req ctx now where call: "call = (req, ctx, now)"
    by (cases call) auto
  from Cons.prems have "\<forall>s \<in> set (sessions (snd (server undef req ctx now db))). s_userId s \<noteq> None"
    by (rule server_keeps_session_users)
  then show ?case
    unfolding call by (simp add: Cons.IH)
qed

text \<open>
  Claim C10. A session created by startStudySession has the authenticated caller's id as
  its userId. No action of the server adds a session row without one: every row that a
  call appends has the caller's id, and in every store reached from the empty one by a
  history of calls, no session has a null userId.
\<close>

theorem session_user_is_caller:
  "(requireUser ctx = Inr u \<and> startStudySession inp ctx now db = (Inr s, db') \<longrightarrow>
      s_userId s = Some (u_id u) \<and> sessions db' = sessions db @ [s]) \<and>
   (\<forall>i. length (sessions db) \<le> i \<and> i < length (sessions (snd (server undef req ctx now db))) \<longrightarrow>
      (\<exists>v. requireUser ctx = Inr v \<and>
           s_userId (sessions (snd (server undef req ctx now db)) ! i) = Some (u_id v))) \<and>
   (\<forall>s \<in> set (sessions (serve_all undef calls empty_db)). s_userId s \<noteq> None)"
proof (intro conjI impI allI)
  assume "requireUser ctx = Inr u \<and> startStudySession inp ctx now db = (Inr s, db')"
  then show "s_userId s = Some (u_id u)"
    by (auto simp: startStudySession_def defineAction_def startStudySession_handler_def Let_def
        split: sum.splits)
next
  assume "requireUser ctx = Inr u \<and> startStudySession inp ctx now db = (Inr s, db')"
  then show "sessions db' = sessions db @ [s]"
    by (auto simp: startStudySession_def defineAction_def startStudySession_handler_def Let_def
        split: sum.splits)
next
  fix i
  assume new: "length (sessions db) \<le> i \<and> i < length (sessions (snd (server undef req ctx now db)))"
  from server_sessions_cases [of undef req ctx now db] new
  show "\<exists>v. requireUser ctx = Inr v \<and>
           s_userId (sessions (snd (server undef req ctx now db)) ! i) = Some (u_id v)"
    by (auto simp: update_where_def nth_append)
next
  have "\<forall>s \<in> set (sessions empty_db). s_userId s \<noteq> None"
    by (simp add: empty_db_def)
  then show "\<forall>s \<in> set (sessions (serve_all undef calls empty_db)). s_userId s \<noteq> None"
    by (rule serve_all_keeps_session_users)
qed

theorem session_user_is_caller_witness:
  "requireUser (signed_in ''alice'') = Inr \<lparr> u_id = ''alice'' \<rparr> \<and>
   startStudySession \<lparr> ss_deckId = 1 \<rparr> (signed_in ''alice'') 80 demo_db =
     (Inr \<lparr> s_id = 3, s_deckId = 1, s_userId = Some ''alice'', s_startedAt = 80,
            s_completedAt = None, s_totalCardsSeen = 0, s_correctCount = 0, s_wrongCount = 0,
            s_summary = None, s_createdAt = 80 \<rparr>,
      demo_db\<lparr> sessions := [session_alice, session_bob,
          \<lparr> s_id = 3, s_deckId = 1, s_userId = Some ''alice'', s_startedAt = 80,
            s_completedAt = None, s_totalCardsSeen = 0, s_correctCount = 0, s_wrongCount = 0,
            s_summary = None, s_createdAt = 80 \<rparr>] \<rparr>) \<and>
   s_userId (sessions (snd (server WritesNull (StartStudySession \<lparr> ss_deckId = 1 \<rparr>)
       (signed_in ''alice'') 80 demo_db)) ! 2) = Some ''alice'' \<and>
   map s_userId (sessions (serve_all WritesNull
       [(CreateDeck \<lparr> cd_title = ''Travel'', cd_description = None, cd_fromLanguage = None,
           cd_toLanguage = None, cd_level = None, cd_tags = None, cd_isActive = None \<rparr>,
         signed_in ''alice'', 1),
        (StartStudySession \<lparr> ss_deckId = 1 \<rparr>, signed_in ''alice'', 2),
        (StartStudySession \<lparr> ss_deckId = 1 \<rparr>, anonymous, 3)] empty_db)) = [Some ''alice'']"
proof -
  let ?new = "\<lparr> s_id = 3, s_deckId = 1, s_userId = Some ''alice'', s_startedAt = 80,
            s_completedAt = None, s_totalCardsSeen = 0, s_correctCount = 0, s_wrongCount = 0,
            s_summary = None, s_createdAt = 80 \<rparr>"
  let ?calls = "[(CreateDeck \<lparr> cd_title = ''Travel'', cd_description = None, cd_fromLanguage = None,
           cd_toLanguage = None, cd_level = None, cd_tags = None, cd_isActive = None \<rparr>,
         signed_in ''alice'', 1),
        (StartStudySession \<lparr> ss_deckId = 1 \<rparr>, signed_in ''alice'', 2),
        (StartStudySession \<lparr> ss_deckId = 1 \<rparr>, anonymous, 3)]"
  have user: "requireUser (signed_in ''alice'') = Inr \<lparr> u_id = ''alice'' \<rparr>"
    by (rule requireUser_signed_in)
  have anon: "requireUser anonymous = Inl (ActionError UNAUTHORIZED ''You must be signed in to perform this action.'')"
    by (simp add: requireUser_def anonymous_def)
  have owned: "getDeckForUser 1 ''alice'' demo_db = Inr deck_travel"
    by (simp add: getDeckForUser_def first_def demo_defs)
  have fresh: "next_id (map s_id (sessions demo_db)) = 3"
    by (simp add: next_id_def demo_defs)
  have run: "startStudySession \<lparr> ss_deckId = 1 \<rparr> (signed_in ''alice'') 80 demo_db =
     (Inr ?new, demo_db\<lparr> sessions := sessions demo_db @ [?new] \<rparr>)"
    by (simp add: startStudySession_def defineAction_def startStudySession_handler_def user owned fresh Let_def)
  have rows: "sessions demo_db @ [?new] = [session_alice, session_bob, ?new]"
    by (simp add: demo_db_def)
  have len: "length (sessions demo_db) \<le> 2 \<and>
      2 < length (sessions (snd (server WritesNull (StartStudySession \<lparr> ss_deckId = 1 \<rparr>)
       (signed_in ''alice'') 80 demo_db)))"
    by (simp add: respond_def run) (simp add: demo_db_def)
  note inst = session_user_is_caller [where ctx = "signed_in ''alice''" and u = "\<lparr> u_id = ''alice'' \<rparr>"
      and inp = "\<lparr> ss_deckId = 1 \<rparr>" and now = 80 and db = demo_db and s = ?new
      and db' = "demo_db\<lparr> sessions := sessions demo_db @ [?new] \<rparr>" and undef = WritesNull
      and req = "StartStudySession \<lparr> ss_deckId = 1 \<rparr>" and calls = ?calls]
  from inst user run have a: "s_userId ?new = Some ''alice''"
    by simp
  from inst len user have b: "s_userId (sessions (snd (server WritesNull (StartStudySession \<lparr> ss_deckId = 1 \<rparr>)
       (signed_in ''alice'') 80 demo_db)) ! 2) = Some ''alice''"
    by (metis Inr_inject user.select_convs(1))
  have c: "map s_userId (sessions (serve_all WritesNull ?calls empty_db)) = [Some ''alice'']"
    by (simp add: respond_def createDeck_def startStudySession_def defineAction_def
        createDeck_input_def createDeck_handler_def startStudySession_handler_def
        requireUser_signed_in anon getDeckForUser_def first_def next_id_def nullish_def empty_db_def
        Let_def)
  from user run rows b c show ?thesis by simp
qed

text \<open>
  Claim C9, as stated: once completeStudySession has succeeded on a session, nothing
  mutates its completedAt, counters or summary again. The handler has no check of
  completedAt, and a second call of the session's user succeeds and overwrites them:
  here completedAt goes from 100 to 200 and totalCardsSeen from 3 to 9.
\<close>

theorem completed_session_overwritten:
  "completeStudySession \<lparr> cs_id = 1, cs_totalCardsSeen = Some 3, cs_correctCount = Some 2,
       cs_wrongCount = Some 1, cs_summary = None, cs_completedAt = None \<rparr> (signed_in ''alice'') 100 demo_db =
     (Inr (Some (session_alice\<lparr> s_totalCardsSeen := 3, s_correctCount := 2, s_wrongCount := 1,
                               s_completedAt := Some 100 \<rparr>)),
      demo_db\<lparr> sessions := [session_alice\<lparr> s_totalCardsSeen := 3, s_correctCount := 2, s_wrongCount := 1,
                               s_completedAt := Some 100 \<rparr>, session_bob] \<rparr>) \<and>
   completeStudySession \<lparr> cs_id = 1, cs_totalCardsSeen = Some 9, cs_correctCount = None,
       cs_wrongCount = None, cs_summary = Some [(''note'', ''again'')], cs_completedAt = None \<rparr>
     (signed_in ''alice'') 200
     (demo_db\<lparr> sessions := [session_alice\<lparr> s_totalCardsSeen := 3, s_correctCount := 2, s_wrongCount := 1,
                               s_completedAt := Some 100 \<rparr>, session_bob] \<rparr>) =
     (Inr (Some (session_alice\<lparr> s_totalCardsSeen := 9, s_correctCount := 2, s_wrongCount := 1,
                               s_summary := Some [(''note'', ''again'')], s_completedAt := Some 200 \<rparr>)),
      demo_db\<lparr> sessions := [session_alice\<lparr> s_totalCardsSeen := 9, s_correctCount := 2, s_wrongCount := 1,
                               s_summary := Some [(''note'', ''again'')], s_completedAt := Some 200 \<rparr>,
                             session_bob] \<rparr>)"
  by (simp add: completeStudySession_def defineAction_def completeStudySession_handler_def
      requireUser_signed_in first_def returning_def update_where_def completeStudySession_set_def
      nullish_def demo_db_def session_alice_def session_bob_def)

text \<open>
  Claim C9, amended. Completion is not limited to once, and what holds of every call of
  the server on a store with unique session ids is this: no session row is removed; the
  id, deckId, userId, startedAt and createdAt of a session never change; a completedAt
  that is set is never null again; and a session row changes only by a
  completeStudySession call for its id made by the session's own user, which rewrites
  its counters, summary and completedAt as that call's request says.
\<close>

theorem session_mutation:
  assumes ids: "distinct (map s_id (sessions db))"
    and step: "db' = snd (server undef req ctx now db)"
    and i: "i < length (sessions db)"
  shows "length (sessions db) \<le> length (sessions db') \<and>
         s_id (sessions db' ! i) = s_id (sessions db ! i) \<and>
         s_deckId (sessions db' ! i) = s_deckId (sessions db ! i) \<and>
         s_userId (sessions db' ! i) = s_userId (sessions db ! i) \<and>
         s_startedAt (sessions db' ! i) = s_startedAt (sessions db ! i) \<and>
         s_createdAt (sessions db' ! i) = s_createdAt (sessions db ! i) \<and>
         (s_completedAt (sessions db ! i) \<noteq> None \<longrightarrow> s_completedAt (sessions db' ! i) \<noteq> None) \<and>
         (sessions db' ! i \<noteq> sessions db ! i \<longrightarrow>
            (\<exists>inp u. req = CompleteStudySession inp \<and> requireUser ctx = Inr u \<and>
               cs_id inp = s_id (sessions db ! i) \<and> s_userId (sessions db ! i) = Some (u_id u) \<and>
               sessions db' ! i = completeStudySession_set inp now (sessions db ! i) (sessions db ! i)))"
proof -
  let ?old = "sessions db ! i"
  from i have mem: "?old \<in> set (sessions db)"
    by simp
  consider
    (same) "sessions db' = sessions db"
  | (start) x where "sessions db' = sessions db @ [x]"
  | (complete) inp u session where "req = CompleteStudySession inp" "requireUser ctx = Inr u"
      "first (filter (\<lambda>s. s_id s = cs_id inp \<and> s_userId s = Some (u_id u)) (sessions db)) = Some session"
      "sessions db' = update_where (\<lambda>s. s_id s = cs_id inp) (completeStudySession_set inp now session) (sessions db)"
    using server_sessions_cases [of undef req ctx now db] unfolding step by blast
  then show ?thesis
  proof cases
    case same
    then show ?thesis by simp
  next
    case start
    with i show ?thesis by (simp add: nth_append)
  next
    case complete
    from complete(3) have session: "session \<in> set (sessions db)" "s_id session = cs_id inp"
        "s_userId session = Some (u_id u)"
      using first_filter_Some [of "\<lambda>s. s_id s = cs_id inp \<and> s_userId s = Some (u_id u)" "sessions db" session]
      by auto
    have new: "sessions db' ! i =
        (if s_id ?old = cs_id inp then completeStudySession_set inp now session ?old else ?old)"
      using i by (simp add: complete(4) update_where_def)
    show ?thesis
    proof (cases "s_id ?old = cs_id inp")
      case True
      with session mem ids have "?old = session"
        using key_unique [of s_id "sessions db" ?old session] by simp
      with True new session complete(1,2,4) show ?thesis
        by (simp add: completeStudySession_set_def update_where_def)
    next
      case False
      with new complete(4) show ?thesis
        by (simp add: update_where_def)
    qed
  qed
qed

theorem session_mutation_witness:
  "distinct (map s_id (sessions demo_db)) \<and> (0::nat) < length (sessions demo_db) \<and>
   s_startedAt (sessions (snd (server WritesNull (CompleteStudySession
       \<lparr> cs_id = 1, cs_totalCardsSeen = Some 3, cs_correctCount = Some 2,
         cs_wrongCount = Some 1, cs_summary = None, cs_completedAt = None \<rparr>)
       (signed_in ''alice'') 100 demo_db)) ! 0) = 20 \<and>
   s_userId (sessions (snd (server WritesNull (CompleteStudySession
       \<lparr> cs_id = 1, cs_totalCardsSeen = Some 3, cs_correctCount = Some 2,
         cs_wrongCount = Some 1, cs_summary = None, cs_completedAt = None \<rparr>)
       (signed_in ''alice'') 100 demo_db)) ! 0) = Some ''alice''"
proof -
  have ids: "distinct (map s_id (sessions demo_db))"
    by (simp add: demo_defs)
  have i: "(0::nat) < length (sessions demo_db)"
    by (simp add: demo_defs)
  have old: "s_startedAt (sessions demo_db ! 0) = 20" "s_userId (sessions demo_db ! 0) = Some ''alice''"
    by (simp_all add: demo_defs)
  from session_mutation [OF ids refl i, of WritesNull "CompleteStudySession
       \<lparr> cs_id = 1, cs_totalCardsSeen = Some 3, cs_correctCount = Some 2,
         cs_wrongCount = Some 1, cs_summary = None, cs_completedAt = None \<rparr>" "signed_in ''alice''" 100]
    ids i old
  show ?thesis by simp
qed

section \<open>Card actions\<close>

lemma upsertCard_selects:
  assumes supplied: "uc_id inp = Some i"
    and ids: "distinct (map c_id (cards db))"
    and stored: "crd \<in> set (cards db)" "c_id crd = i" "c_deckId crd = uc_deckId inp"
  shows "first (filter (\<lambda>c. Some (c_id c) = uc_id inp \<and> c_deckId c = uc_deckId inp) (cards db)) = Some crd"
proof -
  have same: "(Some (c_id r) = uc_id inp \<and> c_deckId r = uc_deckId inp) = (c_id r = c_id crd)"
    if r: "r \<in> set (cards db)" for r
  proof (cases "c_id r = c_id crd")
    case True
    with ids stored r have "r = crd"
      by (intro key_unique [of c_id "cards db" r crd])
    with stored supplied show ?thesis by simp
  next
    case False
    with stored supplied show ?thesis by simp
  qed
  have "filter (\<lambda>c. Some (c_id c) = uc_id inp \<and> c_deckId c = uc_deckId inp) (cards db) =
      filter (\<lambda>c. c_id c = c_id crd) (cards db)"
    by (rule filter_cong) (simp_all add: same)
  moreover have "first (filter (\<lambda>c. c_id c = c_id crd) (cards db)) = Some crd"
    using ids stored(1) by (rule first_filter_key)
  ultimately show ?thesis by simp
qed

lemma upsertCard_update_run:
  assumes user: "requireUser ctx = Inr u"
    and valid: "upsertCard_input inp = Inr inp"
    and owned: "getDeckForUser (uc_deckId inp) (u_id u) db = Inr d"
    and supplied: "uc_id inp = Some i" "i \<noteq> 0"
    and ids: "distinct (map c_id (cards db))"
    and stored: "crd \<in> set (cards db)" "c_id crd = i" "c_deckId crd = uc_deckId inp"
  shows "upsertCard undef inp ctx now db =
           (Inr (Some (upsertCard_set undef inp crd crd)),
            db\<lparr>cards := map (\<lambda>r. if r = crd then upsertCard_set undef inp crd crd else r) (cards db)\<rparr>)"
proof -
  let ?f = "upsertCard_set undef inp crd"
  have pred: "(\<lambda>c. Some (c_id c) = uc_id inp) = (\<lambda>c. c_id c = c_id crd)"
    by (simp add: supplied stored(2))
  have found:
    "first (filter (\<lambda>c. Some (c_id c) = uc_id inp \<and> c_deckId c = uc_deckId inp) (cards db)) = Some crd"
    using supplied(1) ids stored by (rule upsertCard_selects)
  have byid: "first (filter (\<lambda>c. c_id c = c_id crd) (cards db)) = Some crd"
    using ids stored(1) by (rule first_filter_key)
  then have ret: "first (returning (\<lambda>c. Some (c_id c) = uc_id inp) ?f (cards db)) = Some (?f crd)"
    unfolding pred by (rule first_returning)
  have upd: "update_where (\<lambda>c. Some (c_id c) = uc_id inp) ?f (cards db) =
      map (\<lambda>r. if r = crd then ?f crd else r) (cards db)"
    unfolding pred using ids stored(1) by (rule update_where_key)
  have t: "truthy (uc_id inp)"
    by (simp add: truthy_def supplied)
  have "upsertCard undef inp ctx now db =
     (Inr (first (returning (\<lambda>c. Some (c_id c) = uc_id inp) ?f (cards db))),
      db\<lparr>cards := update_where (\<lambda>c. Some (c_id c) = uc_id inp) ?f (cards db)\<rparr>)"
    using user valid owned found t
    by (simp add: upsertCard_def defineAction_def upsertCard_handler_def)
  then show ?thesis
    by (simp only: ret upd)
qed

text \<open>
  Claim C4, as stated: on an update by id, an optional descriptive field that the request
  omits is overwritten with undefined rather than retained. The handler does assign the
  request's value, \<open>undefined\<close> when the field is omitted, but the store drops an
  undefined assignment: here the request omits transliteration and gender, and the
  updated card still has the stored \<open>bukh\<close> and \<open>n\<close>.
\<close>

theorem upsertCard_omitted_field_retained:
  "upsertCard LeavesColumn
     \<lparr> uc_id = Some 1, uc_deckId = 1, uc_displayOrder = None, uc_term = ''book'',
       uc_translation = ''das Buch'', uc_transliteration = None, uc_partOfSpeech = Some ''noun'',
       uc_gender = None, uc_exampleSentence = None, uc_exampleTranslation = None,
       uc_phonetic = None, uc_audioUrl = None, uc_tags = None, uc_isActive = None \<rparr>
     (signed_in ''alice'') 90 demo_db =
     (Inr (Some (card_book\<lparr> c_translation := ''das Buch'' \<rparr>)),
      demo_db\<lparr> cards := [card_book\<lparr> c_translation := ''das Buch'' \<rparr>, card_eat] \<rparr>) \<and>
   c_transliteration (card_book\<lparr> c_translation := ''das Buch'' \<rparr>) = Some ''bukh'' \<and>
   c_gender (card_book\<lparr> c_translation := ''das Buch'' \<rparr>) = Some ''n''"
proof -
  let ?inp = "\<lparr> uc_id = Some 1, uc_deckId = 1, uc_displayOrder = None, uc_term = ''book'',
       uc_translation = ''das Buch'', uc_transliteration = None, uc_partOfSpeech = Some ''noun'',
       uc_gender = None, uc_exampleSentence = None, uc_exampleTranslation = None,
       uc_phonetic = None, uc_audioUrl = None, uc_tags = None, uc_isActive = None \<rparr>"
  have owned: "getDeckForUser 1 ''alice'' demo_db = Inr deck_travel"
    by (simp add: getDeckForUser_def first_def demo_defs)
  have rows: "cards demo_db = [card_book, card_eat]"
    by (simp add: demo_db_def)
  have ids: "c_id card_book = 1" "c_deckId card_book = 1" "c_id card_eat = 2"
    by (simp_all add: card_book_def card_eat_def)
  have written: "upsertCard_set LeavesColumn ?inp card_book card_book =
      card_book\<lparr> c_translation := ''das Buch'' \<rparr>"
    by (simp add: upsertCard_set_def assign_nullable_def nullish_def card_book_def)
  have "upsertCard LeavesColumn ?inp (signed_in ''alice'') 90 demo_db =
     (Inr (Some (upsertCard_set LeavesColumn ?inp card_book card_book)),
      demo_db\<lparr> cards := [upsertCard_set LeavesColumn ?inp card_book card_book, card_eat] \<rparr>)"
    by (simp add: upsertCard_def defineAction_def upsertCard_input_def upsertCard_handler_def
        requireUser_signed_in owned truthy_def first_def returning_def update_where_def rows ids)
  moreover have "c_transliteration (card_book\<lparr> c_translation := ''das Buch'' \<rparr>) = Some ''bukh''"
      "c_gender (card_book\<lparr> c_translation := ''das Buch'' \<rparr>) = Some ''n''"
    by (simp_all add: card_book_def)
  ultimately show ?thesis
    by (simp only: written simp_thms)
qed

text \<open>
  Claim C4, amended. The update branch of upsertCard is taken for a supplied id that is
  truthy (not 0). For an authenticated owner of the deck, an accepted input and a stored
  card with that id in that deck, the updated card keeps its stored displayOrder and
  isActive when the request omits them and takes term and translation from the request.
  Each of transliteration, partOfSpeech, gender, exampleSentence, exampleTranslation,
  phonetic, audioUrl and tags is the request's value when the request has one; when it
  is omitted the handler assigns \<open>undefined\<close>, and the column keeps its stored value on
  the store that drops an undefined assignment, which is the store of the service (it
  would be NULL only on a store that wrote \<open>undefined\<close> as NULL).
\<close>

theorem upsertCard_update_fields:
  assumes user: "requireUser ctx = Inr u"
    and valid: "upsertCard_input inp = Inr inp"
    and owned: "getDeckForUser (uc_deckId inp) (u_id u) db = Inr d"
    and supplied: "uc_id inp = Some i" "i \<noteq> 0"
    and ids: "distinct (map c_id (cards db))"
    and stored: "crd \<in> set (cards db)" "c_id crd = i" "c_deckId crd = uc_deckId inp"
  shows "\<exists>c'. upsertCard undef inp ctx now db =
             (Inr (Some c'), db\<lparr>cards := map (\<lambda>r. if r = crd then c' else r) (cards db)\<rparr>) \<and>
           c_id c' = c_id crd \<and> c_deckId c' = c_deckId crd \<and>
           c_displayOrder c' = (case uc_displayOrder inp of None \<Rightarrow> c_displayOrder crd | Some v \<Rightarrow> v) \<and>
           c_isActive c' = (case uc_isActive inp of None \<Rightarrow> c_isActive crd | Some v \<Rightarrow> v) \<and>
           c_term c' = uc_term inp \<and> c_translation c' = uc_translation inp \<and>
           c_transliteration c' =
             (case uc_transliteration inp of Some v \<Rightarrow> Some v
              | None \<Rightarrow> if undef = LeavesColumn then c_transliteration crd else None) \<and>
           c_partOfSpeech c' =
             (case uc_partOfSpeech inp of Some v \<Rightarrow> Some v
              | None \<Rightarrow> if undef = LeavesColumn then c_partOfSpeech crd else None) \<and>
           c_gender c' =
             (case uc_gender inp of Some v \<Rightarrow> Some v
              | None \<Rightarrow> if undef = LeavesColumn then c_gender crd else None) \<and>
           c_exampleSentence c' =
             (case uc_exampleSentence inp of Some v \<Rightarrow> Some v
              | None \<Rightarrow> if undef = LeavesColumn then c_exampleSentence crd else None) \<and>
           c_exampleTranslation c' =
             (case uc_exampleTranslation inp of Some v \<Rightarrow> Some v
              | None \<Rightarrow> if undef = LeavesColumn then c_exampleTranslation crd else None) \<and>
           c_phonetic c' =
             (case uc_phonetic inp of Some v \<Rightarrow> Some v
              | None \<Rightarrow> if undef = LeavesColumn then c_phonetic crd else None) \<and>
           c_audioUrl c' =
             (case uc_audioUrl inp of Some v \<Rightarrow> Some v
              | None \<Rightarrow> if undef = LeavesColumn then c_audioUrl crd else None) \<and>
           c_tags c' =
             (case uc_tags inp of Some v \<Rightarrow> Some v
              | None \<Rightarrow> if undef = LeavesColumn then c_tags crd else None)"
proof -
  let ?c = "upsertCard_set undef inp crd crd"
  have run: "upsertCard undef inp ctx now db =
      (Inr (Some ?c), db\<lparr>cards := map (\<lambda>r. if r = crd then ?c else r) (cards db)\<rparr>)"
    using user valid owned supplied ids stored by (rule upsertCard_update_run)
  have column: "assign_nullable undef v old =
      (case v of Some x \<Rightarrow> Some x | None \<Rightarrow> if undef = LeavesColumn then old else None)"
    for v old :: "string option"
    by (cases undef) (simp_all add: assign_nullable_def split: option.splits)
  have fields:
    "c_id ?c = c_id crd" "c_deckId ?c = c_deckId crd"
    "c_displayOrder ?c = (case uc_displayOrder inp of None \<Rightarrow> c_displayOrder crd | Some v \<Rightarrow> v)"
    "c_isActive ?c = (case uc_isActive inp of None \<Rightarrow> c_isActive crd | Some v \<Rightarrow> v)"
    "c_term ?c = uc_term inp" "c_translation ?c = uc_translation inp"
    "c_transliteration ?c = assign_nullable undef (uc_transliteration inp) (c_transliteration crd)"
    "c_partOfSpeech ?c = assign_nullable undef (uc_partOfSpeech inp) (c_partOfSpeech crd)"
    "c_gender ?c = assign_nullable undef (uc_gender inp) (c_gender crd)"
    "c_exampleSentence ?c = assign_nullable undef (uc_exampleSentence inp) (c_exampleSentence crd)"
    "c_exampleTranslation ?c = assign_nullable undef (uc_exampleTranslation inp) (c_exampleTranslation crd)"
    "c_phonetic ?c = assign_nullable undef (uc_phonetic inp) (c_phonetic crd)"
    "c_audioUrl ?c = assign_nullable undef (uc_audioUrl inp) (c_audioUrl crd)"
    "c_tags ?c = assign_nullable undef (uc_tags inp) (c_tags crd)"
    using stored(3) by (simp_all add: upsertCard_set_def nullish_def)
  show ?thesis
    by (rule exI [of _ ?c]) (simp only: run fields column simp_thms)
qed

theorem upsertCard_update_fields_witness:
  "requireUser (signed_in ''alice'') = Inr \<lparr> u_id = ''alice'' \<rparr> \<and>
   getDeckForUser 1 ''alice'' demo_db = Inr deck_travel \<and>
   distinct (map c_id (cards demo_db)) \<and> card_book \<in> set (cards demo_db) \<and>
   c_id card_book = 1 \<and> c_deckId card_book = 1 \<and>
   upsertCard LeavesColumn
     \<lparr> uc_id = Some 1, uc_deckId = 1, uc_displayOrder = Some 2, uc_term = ''book'',
       uc_translation = ''das Buch'', uc_transliteration = Some ''buch'', uc_partOfSpeech = None,
       uc_gender = None, uc_exampleSentence = None, uc_exampleTranslation = None,
       uc_phonetic = None, uc_audioUrl = None, uc_tags = None, uc_isActive = None \<rparr>
     (signed_in ''alice'') 90 demo_db =
     (Inr (Some (card_book\<lparr> c_displayOrder := 2, c_translation := ''das Buch'',
                             c_transliteration := Some ''buch'' \<rparr>)),
      demo_db\<lparr> cards := [card_book\<lparr> c_displayOrder := 2, c_translation := ''das Buch'',
                                     c_transliteration := Some ''buch'' \<rparr>, card_eat] \<rparr>) \<and>
   c_partOfSpeech card_book = Some ''noun'' \<and> c_gender card_book = Some ''n'' \<and>
   \<not> c_isActive card_book"
proof -
  let ?inp = "\<lparr> uc_id = Some 1, uc_deckId = 1, uc_displayOrder = Some 2, uc_term = ''book'',
       uc_translation = ''das Buch'', uc_transliteration = Some ''buch'', uc_partOfSpeech = None,
       uc_gender = None, uc_exampleSentence = None, uc_exampleTranslation = None,
       uc_phonetic = None, uc_audioUrl = None, uc_tags = None, uc_isActive = None \<rparr>"
  let ?u = "\<lparr> u_id = ''alice'' \<rparr>"
  have user: "requireUser (signed_in ''alice'') = Inr ?u"
    by (rule requireUser_signed_in)
  have valid: "upsertCard_input ?inp = Inr ?inp"
    by (simp add: upsertCard_input_def)
  have owned: "getDeckForUser 1 ''alice'' demo_db = Inr deck_travel"
    by (simp add: getDeckForUser_def first_def demo_defs)
  then have owned': "getDeckForUser (uc_deckId ?inp) (u_id ?u) demo_db = Inr deck_travel"
    by simp
  have supplied: "uc_id ?inp = Some 1" "(1::int) \<noteq> 0"
    by simp_all
  have ids: "distinct (map c_id (cards demo_db))"
    by (simp add: demo_defs)
  have stored: "card_book \<in> set (cards demo_db)" "c_id card_book = 1" "c_deckId card_book = uc_deckId ?inp"
    by (simp_all add: demo_defs)
  have kept: "c_partOfSpeech card_book = Some ''noun''" "c_gender card_book = Some ''n''"
      "\<not> c_isActive card_book"
    by (simp_all add: card_book_def)
  from upsertCard_update_fields [OF user valid owned' supplied ids stored, of LeavesColumn 90]
  obtain c' where run: "upsertCard LeavesColumn ?inp (signed_in ''alice'') 90 demo_db =
        (Inr (Some c'), demo_db\<lparr>cards := map (\<lambda>r. if r = card_book then c' else r) (cards demo_db)\<rparr>)"
    and fields: "c_id c' = c_id card_book" "c_deckId c' = c_deckId card_book"
      "c_displayOrder c' = 2" "c_isActive c' = c_isActive card_book"
      "c_term c' = ''book''" "c_translation c' = ''das Buch''" "c_transliteration c' = Some ''buch''"
      "c_partOfSpeech c' = c_partOfSpeech card_book" "c_gender c' = c_gender card_book"
      "c_exampleSentence c' = c_exampleSentence card_book"
      "c_exampleTranslation c' = c_exampleTranslation card_book" "c_phonetic c' = c_phonetic card_book"
      "c_audioUrl c' = c_audioUrl card_book" "c_tags c' = c_tags card_book"
    by auto
  from fields have c': "c' = card_book\<lparr> c_displayOrder := 2, c_translation := ''das Buch'',
                             c_transliteration := Some ''buch'' \<rparr>"
    by (cases c') (simp add: card_book_def)
  have rows: "map (\<lambda>r. if r = card_book then c' else r) (cards demo_db) = [c', card_eat]"
    by (simp add: demo_db_def) (simp add: card_book_def card_eat_def)
  from stored have stored': "c_deckId card_book = 1"
    by simp
  from user owned ids stored(1,2) stored' run c' rows kept show ?thesis by simp
qed

text \<open>
  An upsertCard call with a truthy id that no card of the supplied deck has fails with
  NOT_FOUND and leaves the store as it was.
\<close>

lemma upsertCard_unknown_card:
  assumes user: "requireUser ctx = Inr u"
    and valid: "upsertCard_input inp = Inr inp"
    and owned: "getDeckForUser (uc_deckId inp) (u_id u) db = Inr d"
    and supplied: "uc_id inp = Some i" "i \<noteq> 0"
    and missing: "\<forall>c \<in> set (cards db). \<not> (c_id c = i \<and> c_deckId c = uc_deckId inp)"
  shows "upsertCard undef inp ctx now db = (Inl (ActionError NOT_FOUND ''Card not found.''), db)"
proof -
  from missing
  have "\<forall>c \<in> set (cards db). \<not> (Some (c_id c) = uc_id inp \<and> c_deckId c = uc_deckId inp)"
    by (simp add: supplied)
  then have none: "first (filter (\<lambda>c. Some (c_id c) = uc_id inp \<and> c_deckId c = uc_deckId inp) (cards db)) = None"
    by (simp only: first_filter_None)
  have t: "truthy (uc_id inp)"
    by (simp add: truthy_def supplied)
  show ?thesis
    using user valid owned none t
    by (simp add: upsertCard_def defineAction_def upsertCard_handler_def)
qed

text \<open>
  Claim C3 at the id 0. The handler tests \<open>if (input.id)\<close>, and 0 is falsy: a request
  with the supplied id 0, which no card has, takes the insert branch. The call succeeds
  and a new card row is created, where the claim has NOT_FOUND and no row created.
\<close>

theorem upsertCard_id_zero_inserts:
  "filter (\<lambda>c. c_id c = 0) (cards demo_db) = [] \<and>
   upsertCard undef
     \<lparr> uc_id = Some 0, uc_deckId = 1, uc_displayOrder = None, uc_term = ''cat'',
       uc_translation = ''Katze'', uc_transliteration = None, uc_partOfSpeech = None,
       uc_gender = None, uc_exampleSentence = None, uc_exampleTranslation = None,
       uc_phonetic = None, uc_audioUrl = None, uc_tags = None, uc_isActive = None \<rparr>
     (signed_in ''alice'') 90 demo_db =
     (Inr (Some \<lparr> c_id = 3, c_deckId = 1, c_displayOrder = 0, c_term = ''cat'',
              c_translation = ''Katze'', c_transliteration = None, c_partOfSpeech = None,
              c_gender = None, c_exampleSentence = None, c_exampleTranslation = None,
              c_phonetic = None, c_audioUrl = None, c_tags = None, c_isActive = True \<rparr>),
      demo_db\<lparr> cards := [card_book, card_eat,
          \<lparr> c_id = 3, c_deckId = 1, c_displayOrder = 0, c_term = ''cat'',
              c_translation = ''Katze'', c_transliteration = None, c_partOfSpeech = None,
              c_gender = None, c_exampleSentence = None, c_exampleTranslation = None,
              c_phonetic = None, c_audioUrl = None, c_tags = None, c_isActive = True \<rparr>] \<rparr>)"
proof -
  have owned: "getDeckForUser 1 ''alice'' demo_db = Inr deck_travel"
    by (simp add: getDeckForUser_def first_def demo_defs)
  have fresh: "next_id (map c_id (cards demo_db)) = 3"
    by (simp add: next_id_def demo_defs)
  have none: "filter (\<lambda>c. c_id c = 0) (cards demo_db) = []"
    by (simp add: demo_defs)
  have rows: "cards demo_db = [card_book, card_eat]"
    by (simp add: demo_db_def)
  have "upsertCard undef
     \<lparr> uc_id = Some 0, uc_deckId = 1, uc_displayOrder = None, uc_term = ''cat'',
       uc_translation = ''Katze'', uc_transliteration = None, uc_partOfSpeech = None,
       uc_gender = None, uc_exampleSentence = None, uc_exampleTranslation = None,
       uc_phonetic = None, uc_audioUrl = None, uc_tags = None, uc_isActive = None \<rparr>
     (signed_in ''alice'') 90 demo_db =
     (Inr (Some \<lparr> c_id = 3, c_deckId = 1, c_displayOrder = 0, c_term = ''cat'',
              c_translation = ''Katze'', c_transliteration = None, c_partOfSpeech = None,
              c_gender = None, c_exampleSentence = None, c_exampleTranslation = None,
              c_phonetic = None, c_audioUrl = None, c_tags = None, c_isActive = True \<rparr>),
      demo_db\<lparr> cards := cards demo_db @
         [\<lparr> c_id = 3, c_deckId = 1, c_displayOrder = 0, c_term = ''cat'',
              c_translation = ''Katze'', c_transliteration = None, c_partOfSpeech = None,
              c_gender = None, c_exampleSentence = None, c_exampleTranslation = None,
              c_phonetic = None, c_audioUrl = None, c_tags = None, c_isActive = True \<rparr>] \<rparr>)"
    by (simp add: upsertCard_def defineAction_def upsertCard_input_def upsertCard_handler_def
        requireUser_signed_in owned fresh truthy_def nullish_def Let_def)
  with none rows show ?thesis by simp
qed

section \<open>Review action\<close>

lemma getDeckForUser_Inr:
  "getDeckForUser k uid db = Inr d \<Longrightarrow> d \<in> set (decks db) \<and> d_id d = k \<and> d_ownerId d = uid"
proof -
  assume ok: "getDeckForUser k uid db = Inr d"
  then obtain x where x: "first (filter (\<lambda>r. d_id r = k) (decks db)) = Some x"
    by (cases "first (filter (\<lambda>r. d_id r = k) (decks db))") (simp_all add: getDeckForUser_def)
  with ok have "x = d" "d_ownerId x = uid"
    by (simp_all add: getDeckForUser_def split: if_splits)
  with first_filter_Some [OF x] show ?thesis
    by simp
qed

text \<open>
  logReview for an authenticated owner of the deck: NOT_FOUND when no card has the
  cardId in the deck; FORBIDDEN when a truthy sessionId names no session of the
  caller; the store's foreign key exception when the sessionId is 0 and no session has
  the id 0; otherwise one review row is appended, with rating good, reviewedAt now and
  intervalDays 0 where the request omits them, and dueAt and easeFactor as supplied.
\<close>

lemma logReview_checks:
  assumes user: "requireUser ctx = Inr u"
    and owned: "getDeckForUser (lr_deckId inp) (u_id u) db = Inr d"
  shows "((\<forall>c \<in> set (cards db). \<not> (c_id c = lr_cardId inp \<and> c_deckId c = lr_deckId inp)) \<longrightarrow>
            logReview inp ctx now db = (Inl (ActionError NOT_FOUND ''Card not found for this deck.''), db)) \<and>
         ((\<exists>c \<in> set (cards db). c_id c = lr_cardId inp \<and> c_deckId c = lr_deckId inp) \<and>
            lr_sessionId inp = Some sid \<and> sid \<noteq> 0 \<and>
            (\<forall>s \<in> set (sessions db). \<not> (s_id s = sid \<and> s_userId s = Some (u_id u))) \<longrightarrow>
            logReview inp ctx now db =
              (Inl (ActionError FORBIDDEN ''Session not found or not accessible.''), db)) \<and>
         ((\<exists>c \<in> set (cards db). c_id c = lr_cardId inp \<and> c_deckId c = lr_deckId inp) \<and>
            lr_sessionId inp = Some 0 \<and> (\<forall>s \<in> set (sessions db). s_id s \<noteq> 0) \<longrightarrow>
            logReview inp ctx now db = (Inl (InternalServerError FOREIGN_KEY_CONSTRAINT), db)) \<and>
         ((\<exists>c \<in> set (cards db). c_id c = lr_cardId inp \<and> c_deckId c = lr_deckId inp) \<and>
            (lr_sessionId inp = None \<or>
             (\<exists>s \<in> set (sessions db). Some (s_id s) = lr_sessionId inp \<and> s_userId s = Some (u_id u))) \<longrightarrow>
            logReview inp ctx now db =
              (Inr \<lparr> r_id = next_id (map r_id (reviews db)), r_deckId = lr_deckId inp,
                     r_cardId = lr_cardId inp, r_userId = Some (u_id u),
                     r_sessionId = lr_sessionId inp,
                     r_rating = (case lr_rating inp of None \<Rightarrow> good | Some r \<Rightarrow> r),
                     r_reviewedAt = (case lr_reviewedAt inp of None \<Rightarrow> now | Some t \<Rightarrow> t),
                     r_dueAt = lr_dueAt inp,
                     r_intervalDays = (case lr_intervalDays inp of None \<Rightarrow> 0 | Some n \<Rightarrow> n),
                     r_easeFactor = lr_easeFactor inp \<rparr>,
               db\<lparr>reviews := reviews db @
                 [\<lparr> r_id = next_id (map r_id (reviews db)), r_deckId = lr_deckId inp,
                     r_cardId = lr_cardId inp, r_userId = Some (u_id u),
                     r_sessionId = lr_sessionId inp,
                     r_rating = (case lr_rating inp of None \<Rightarrow> good | Some r \<Rightarrow> r),
                     r_reviewedAt = (case lr_reviewedAt inp of None \<Rightarrow> now | Some t \<Rightarrow> t),
                     r_dueAt = lr_dueAt inp,
                     r_intervalDays = (case lr_intervalDays inp of None \<Rightarrow> 0 | Some n \<Rightarrow> n),
                     r_easeFactor = lr_easeFactor inp \<rparr>]\<rparr>))"
proof -
  let ?card = "first (filter (\<lambda>c. c_id c = lr_cardId inp \<and> c_deckId c = lr_deckId inp) (cards db))"
  let ?session = "first (filter (\<lambda>s. Some (s_id s) = lr_sessionId inp \<and> s_userId s = Some (u_id u)) (sessions db))"
  let ?review = "\<lparr> r_id = next_id (map r_id (reviews db)), r_deckId = lr_deckId inp,
                     r_cardId = lr_cardId inp, r_userId = Some (u_id u),
                     r_sessionId = lr_sessionId inp,
                     r_rating = (case lr_rating inp of None \<Rightarrow> good | Some r \<Rightarrow> r),
                     r_reviewedAt = (case lr_reviewedAt inp of None \<Rightarrow> now | Some t \<Rightarrow> t),
                     r_dueAt = lr_dueAt inp,
                     r_intervalDays = (case lr_intervalDays inp of None \<Rightarrow> 0 | Some n \<Rightarrow> n),
                     r_easeFactor = lr_easeFactor inp \<rparr>"
  have card: "(?card = None) = (\<forall>c \<in> set (cards db). \<not> (c_id c = lr_cardId inp \<and> c_deckId c = lr_deckId inp))"
    by (rule first_filter_None)
  have session: "(?session = None) =
      (\<forall>s \<in> set (sessions db). \<not> (Some (s_id s) = lr_sessionId inp \<and> s_userId s = Some (u_id u)))"
    by (rule first_filter_None)
  have deck: "lr_deckId inp \<in> set (map d_id (decks db))"
    using getDeckForUser_Inr [OF owned] by (auto intro: rev_image_eqI)
  have refs: "review_references db ?review =
      (lr_cardId inp \<in> set (map c_id (cards db)) \<and>
       (case lr_sessionId inp of None \<Rightarrow> True | Some k \<Rightarrow> k \<in> set (map s_id (sessions db))))"
    using deck by (simp add: review_references_def)
  have run_none: "logReview inp ctx now db =
      (Inl (ActionError NOT_FOUND ''Card not found for this deck.''), db)" if "?card = None"
    using user owned that
    by (simp add: logReview_def defineAction_def logReview_input_def logReview_handler_def)
  have run_some: "logReview inp ctx now db =
      (if truthy (lr_sessionId inp) \<and> ?session = None
       then (Inl (ActionError FORBIDDEN ''Session not found or not accessible.''), db)
       else if review_references db ?review
       then (Inr ?review, db\<lparr>reviews := reviews db @ [?review]\<rparr>)
       else (Inl (InternalServerError FOREIGN_KEY_CONSTRAINT), db))" if "?card = Some c" for c
    using user owned that
    by (simp add: logReview_def defineAction_def logReview_input_def logReview_handler_def
        nullish_def Let_def)
  show ?thesis
  proof (intro conjI impI)
    assume "\<forall>c \<in> set (cards db). \<not> (c_id c = lr_cardId inp \<and> c_deckId c = lr_deckId inp)"
    with card have "?card = None"
      by simp
    then show "logReview inp ctx now db = (Inl (ActionError NOT_FOUND ''Card not found for this deck.''), db)"
      by (rule run_none)
  next
    assume a: "(\<exists>c \<in> set (cards db). c_id c = lr_cardId inp \<and> c_deckId c = lr_deckId inp) \<and>
            lr_sessionId inp = Some sid \<and> sid \<noteq> 0 \<and>
            (\<forall>s \<in> set (sessions db). \<not> (s_id s = sid \<and> s_userId s = Some (u_id u)))"
    with card obtain c where c: "?card = Some c"
      by (cases ?card) auto
    from a have t: "truthy (lr_sessionId inp)"
      by (simp add: truthy_def)
    from a session have s: "?session = None"
      by simp
    show "logReview inp ctx now db = (Inl (ActionError FORBIDDEN ''Session not found or not accessible.''), db)"
      by (simp only: run_some [OF c] t s simp_thms if_True)
  next
    assume a: "(\<exists>c \<in> set (cards db). c_id c = lr_cardId inp \<and> c_deckId c = lr_deckId inp) \<and>
            lr_sessionId inp = Some 0 \<and> (\<forall>s \<in> set (sessions db). s_id s \<noteq> 0)"
    with card obtain c where c: "?card = Some c"
      by (cases ?card) auto
    from a have pass: "\<not> (truthy (lr_sessionId inp) \<and> ?session = None)"
      by (simp add: truthy_def)
    from a have dangling: "\<not> review_references db ?review"
      unfolding refs by auto
    show "logReview inp ctx now db = (Inl (InternalServerError FOREIGN_KEY_CONSTRAINT), db)"
      using pass dangling by (simp only: run_some [OF c] if_False)
  next
    assume a: "(\<exists>c \<in> set (cards db). c_id c = lr_cardId inp \<and> c_deckId c = lr_deckId inp) \<and>
            (lr_sessionId inp = None \<or>
             (\<exists>s \<in> set (sessions db). Some (s_id s) = lr_sessionId inp \<and> s_userId s = Some (u_id u)))"
    with card obtain c where c: "?card = Some c"
      by (cases ?card) auto
    from a session have pass: "\<not> (truthy (lr_sessionId inp) \<and> ?session = None)"
      by (auto simp: truthy_def)
    from a have held: "review_references db ?review"
      unfolding refs by (auto split: option.splits intro: rev_image_eqI)
    show "logReview inp ctx now db = (Inr ?review, db\<lparr>reviews := reviews db @ [?review]\<rparr>)"
      using pass held by (simp only: run_some [OF c] if_False if_True)
  qed
qed

text \<open>
  Claim C2 at the sessionId 0. The handler tests \<open>if (input.sessionId)\<close>, and 0 is
  falsy: with the supplied sessionId 0, which no session has, the session check is
  skipped and the insert goes to the store, which refuses the dangling sessionId. The
  caller gets INTERNAL_SERVER_ERROR where the claim has FORBIDDEN; no row is inserted.
\<close>

theorem logReview_session_zero_not_forbidden:
  "filter (\<lambda>s. s_id s = 0) (sessions demo_db) = [] \<and>
   logReview
     \<lparr> lr_deckId = 1, lr_cardId = 1, lr_sessionId = Some 0, lr_rating = None,
       lr_reviewedAt = None, lr_dueAt = None, lr_intervalDays = None, lr_easeFactor = None \<rparr>
     (signed_in ''alice'') 95 demo_db =
     (Inl (InternalServerError FOREIGN_KEY_CONSTRAINT), demo_db)"
proof -
  have owned: "getDeckForUser 1 ''alice'' demo_db = Inr deck_travel"
    by (simp add: getDeckForUser_def first_def demo_defs)
  have none: "filter (\<lambda>s. s_id s = 0) (sessions demo_db) = []"
    by (simp add: demo_defs)
  have found: "first (filter (\<lambda>c. c_id c = 1 \<and> c_deckId c = 1) (cards demo_db)) = Some card_book"
    by (simp add: first_def demo_defs)
  have keys: "map s_id (sessions demo_db) = [1, 2]"
    by (simp add: demo_defs)
  have "logReview
     \<lparr> lr_deckId = 1, lr_cardId = 1, lr_sessionId = Some 0, lr_rating = None,
       lr_reviewedAt = None, lr_dueAt = None, lr_intervalDays = None, lr_easeFactor = None \<rparr>
     (signed_in ''alice'') 95 demo_db =
     (Inl (InternalServerError FOREIGN_KEY_CONSTRAINT), demo_db)"
    by (simp add: logReview_def defineAction_def logReview_input_def logReview_handler_def
        requireUser_signed_in owned found truthy_def nullish_def Let_def review_references_def keys)
  with none show ?thesis by simp
qed

end
